theory Spec2Isabelle
  imports Complex_Main "HOL-Library.Word" "HOL-Library.Char_ord" "HOL-Library.List_Lexorder"
begin

section \<open>MavSystem: the per-vehicle telemetry store of MavLogAnalyzer\<close>

text \<open>
  This theory embeds the parts of \<^verbatim>\<open>src/mavsystem.cpp\<close> that keep the relative
  clock, determine the absolute time offset, maintain the data hierarchy, merge systems
  and derive data in the post-processing passes.

  Conventions of the embedding:
  \<^item> C++ \<^verbatim>\<open>double\<close> and \<^verbatim>\<open>float\<close> values are modelled by \<^typ>\<open>real\<close>, that is with exact
    arithmetic; the two infinities that initialise the time bounds are explicit
    constructors of \<open>xdouble\<close>. Rounding errors of the machine formats are not modelled.
  \<^item> \<^verbatim>\<open>uint64_t\<close> and \<^verbatim>\<open>unsigned long\<close> (LP64) are \<^typ>\<open>64 word\<close>, \<^verbatim>\<open>unsigned int\<close> is
    \<^typ>\<open>32 word\<close>.
  \<^item> A \<^verbatim>\<open>std::map\<close> is an association list kept sorted by key, so that iteration
    visits the entries in key order as the C++ container does.
  \<^item> A \<^verbatim>\<open>Data*\<close> is an index into the object store \<open>objs\<close> of the system; a deleted
    object leaves \<open>None\<close> behind and addresses are never reused. A \<^verbatim>\<open>DataGroup*\<close> is the
    list of group names that leads from the top-level group map to the group.
  \<^item> Writing to the log channel changes no data and is left out.
\<close>

subsection \<open>Doubles with infinities\<close>

datatype xdouble = NegInfinity | Finite real | PosInfinity

fun xless :: "xdouble \<Rightarrow> xdouble \<Rightarrow> bool" where
  "xless NegInfinity NegInfinity = False"
| "xless NegInfinity _ = True"
| "xless (Finite a) (Finite b) = (a < b)"
| "xless (Finite a) PosInfinity = True"
| "xless (Finite a) NegInfinity = False"
| "xless PosInfinity _ = False"



subsection \<open>Associative containers\<close>

text \<open>\<^verbatim>\<open>std::map\<close>: \<open>map_find\<close> is \<^verbatim>\<open>find\<close>, \<open>map_assign\<close> is \<^verbatim>\<open>m[k] = v\<close>,
  \<open>map_erase\<close> is \<^verbatim>\<open>erase\<close>.\<close>

fun map_find :: "'k \<Rightarrow> ('k \<times> 'v) list \<Rightarrow> 'v option" where
  "map_find k [] = None"
| "map_find k ((k', v) # m) = (if k = k' then Some v else map_find k m)"

fun map_assign :: "'k::linorder \<Rightarrow> 'v \<Rightarrow> ('k \<times> 'v) list \<Rightarrow> ('k \<times> 'v) list" where
  "map_assign k v [] = [(k, v)]"
| "map_assign k v ((k', v') # m) =
     (if k < k' then (k, v) # (k', v') # m
      else if k = k' then (k, v) # m
      else (k', v') # map_assign k v m)"

fun map_erase :: "'k \<Rightarrow> ('k \<times> 'v) list \<Rightarrow> ('k \<times> 'v) list" where
  "map_erase k [] = []"
| "map_erase k ((k', v) # m) = (if k = k' then map_erase k m else (k', v) # map_erase k m)"

subsection \<open>Data units and groups\<close>

datatype data_class = DATA_RAW | DATA_DERIVED

text \<open>The variants of a data unit that the modelled functions use. A sample of a timed
  unit is a pair of its relative time in seconds and its value.\<close>

datatype payload =
    TimeseriesFloat "(real \<times> real) list"
  | TimeseriesDouble "(real \<times> real) list"
  | EventString "(real \<times> string) list"
  | ParamUInt "32 word list"
  | ParamDouble "real list"

record data =
  name :: string
  units :: string
  dtype :: data_class
  epoch_datastart :: "64 word"
  parent :: "string list option"
  payload :: payload

datatype datagroup =
  DataGroup (groupname: string) (groups: "(string \<times> datagroup) list")
            (gdata: "(string \<times> nat) list")

subsection \<open>The system\<close>

record mavsystem =
  time :: real
  time_min :: xdouble
  time_max :: xdouble
  time_valid :: bool
  have_time_update :: bool
  time_maxfwdjump_sec :: real
  time_maxbackjump_sec :: real
  time_offset_raw :: "(64 word \<times> 64 word) list"
  time_offset_usec :: "64 word"
  time_offset_guess_usec :: "64 word"
  deferredLoad :: bool
  objs :: "data option list"
  data_from_path :: "(string \<times> nat) list"
  mav_data_groups :: "(string \<times> datagroup) list"

text \<open>\<^verbatim>\<open>MavSystem::_defaults\<close>, for the fields of the model.\<close>

definition defaults :: "mavsystem \<Rightarrow> mavsystem" where
  "defaults s = s\<lparr> time_max := NegInfinity, time_min := PosInfinity, time_valid := False,
     time_offset_guess_usec := 0, time_maxfwdjump_sec := 100, time_maxbackjump_sec := 5,
     have_time_update := False, deferredLoad := False \<rparr>"

text \<open>The constructor \<^verbatim>\<open>MavSystem(sysid)\<close>: relative time and offset are zero, the
  containers are empty, then \<open>defaults\<close>.\<close>

definition MavSystem :: mavsystem where
  "MavSystem = defaults \<lparr> time = 0, time_min = PosInfinity, time_max = NegInfinity,
     time_valid = False, have_time_update = False, time_maxfwdjump_sec = 0,
     time_maxbackjump_sec = 0, time_offset_raw = [], time_offset_usec = 0,
     time_offset_guess_usec = 0, deferredLoad = False, objs = [], data_from_path = [],
     mav_data_groups = [] \<rparr>"

subsection \<open>Relative time\<close>

text \<open>\<^verbatim>\<open>MavSystem::update_rel_time\<close>. The result is the returned status and the system
  after the call.\<close>

definition update_rel_time :: "64 word \<Rightarrow> bool \<Rightarrow> mavsystem \<Rightarrow> int \<times> mavsystem" where
  "update_rel_time nowtime_relative_usec allowjumps s =
     (let cand_time = real (unat nowtime_relative_usec) / 1000000;
          diff = (if time_valid s then cand_time - time s else 0);
          s1 = (if time_valid s then s else s\<lparr>time_valid := True\<rparr>)
      in if diff < - time_maxbackjump_sec s1 \<and> \<not> allowjumps then (- 1, s1)
         else if diff > time_maxfwdjump_sec s1 \<and> \<not> allowjumps then (1, s1)
         else (0, s1\<lparr>
                time_min := (if xless (Finite cand_time) (time_min s1)
                             then Finite cand_time else time_min s1),
                time_max := (if xless (time_max s1) (Finite cand_time)
                             then Finite cand_time else time_max s1),
                time := cand_time,
                have_time_update := True\<rparr>))"

subsection \<open>The object store\<close>

definition obj_at :: "mavsystem \<Rightarrow> nat \<Rightarrow> data option" where
  "obj_at s a = (if a < length (objs s) then objs s ! a else None)"

text \<open>A method call through a \<^verbatim>\<open>Data*\<close> that changes the object. Nothing happens where
  the address holds no object; the code is never in that situation as long as it only
  follows pointers to objects that are alive.\<close>

definition obj_update :: "nat \<Rightarrow> (data \<Rightarrow> data) \<Rightarrow> mavsystem \<Rightarrow> mavsystem" where
  "obj_update a f s =
     (case obj_at s a of None \<Rightarrow> s | Some d \<Rightarrow> s\<lparr>objs := (objs s)[a := Some (f d)]\<rparr>)"

text \<open>\<^verbatim>\<open>new\<close>: the object gets the next address.\<close>

definition new_data :: "data \<Rightarrow> mavsystem \<Rightarrow> nat \<times> mavsystem" where
  "new_data d s = (length (objs s), s\<lparr>objs := objs s @ [Some d]\<rparr>)"

subsection \<open>Methods of the data units\<close>

text \<open>Modelled from the spec: the classes \<^verbatim>\<open>Data\<close>, \<^verbatim>\<open>DataTimeseries\<close>, \<^verbatim>\<open>DataEvent\<close> and
  \<^verbatim>\<open>DataParam\<close> are declared in headers that are not part of the sources. Their methods
  follow sections 3 and 4.2 of the specification: \<^verbatim>\<open>add_elem\<close> appends a sample,
  \<^verbatim>\<open>clear\<close> removes all samples, \<^verbatim>\<open>size\<close> counts them, \<^verbatim>\<open>get_data(k, t, v)\<close> reads the
  sample with index \<open>k\<close>, and a unit is present when it holds a sample.\<close>

fun add_elem_real :: "real \<Rightarrow> real \<Rightarrow> payload \<Rightarrow> payload" where
  "add_elem_real v t (TimeseriesFloat xs) = TimeseriesFloat (xs @ [(t, v)])"
| "add_elem_real v t (TimeseriesDouble xs) = TimeseriesDouble (xs @ [(t, v)])"
| "add_elem_real v t p = p"

fun add_elem_string :: "string \<Rightarrow> real \<Rightarrow> payload \<Rightarrow> payload" where
  "add_elem_string v t (EventString xs) = EventString (xs @ [(t, v)])"
| "add_elem_string v t p = p"

fun add_param_uint :: "32 word \<Rightarrow> payload \<Rightarrow> payload" where
  "add_param_uint v (ParamUInt xs) = ParamUInt (xs @ [v])"
| "add_param_uint v p = p"

fun add_param_double :: "real \<Rightarrow> payload \<Rightarrow> payload" where
  "add_param_double v (ParamDouble xs) = ParamDouble (xs @ [v])"
| "add_param_double v p = p"

fun clear_payload :: "payload \<Rightarrow> payload" where
  "clear_payload (TimeseriesFloat xs) = TimeseriesFloat []"
| "clear_payload (TimeseriesDouble xs) = TimeseriesDouble []"
| "clear_payload (EventString xs) = EventString []"
| "clear_payload (ParamUInt xs) = ParamUInt []"
| "clear_payload (ParamDouble xs) = ParamDouble []"

fun payload_size :: "payload \<Rightarrow> nat" where
  "payload_size (TimeseriesFloat xs) = length xs"
| "payload_size (TimeseriesDouble xs) = length xs"
| "payload_size (EventString xs) = length xs"
| "payload_size (ParamUInt xs) = length xs"
| "payload_size (ParamDouble xs) = length xs"

definition is_present :: "data \<Rightarrow> bool" where
  "is_present d = (payload_size (payload d) > 0)"

text \<open>The dynamic type of a unit, as \<^verbatim>\<open>dynamic_cast\<close> sees it.\<close>

fun same_kind :: "payload \<Rightarrow> payload \<Rightarrow> bool" where
  "same_kind (TimeseriesFloat _) (TimeseriesFloat _) = True"
| "same_kind (TimeseriesDouble _) (TimeseriesDouble _) = True"
| "same_kind (EventString _) (EventString _) = True"
| "same_kind (ParamUInt _) (ParamUInt _) = True"
| "same_kind (ParamDouble _) (ParamDouble _) = True"
| "same_kind _ _ = False"

text \<open>The samples of a float series; no samples for any other variant.\<close>

fun float_samples :: "payload \<Rightarrow> (real \<times> real) list" where
  "float_samples (TimeseriesFloat xs) = xs"
| "float_samples p = []"

definition add_elem :: "nat \<Rightarrow> real \<Rightarrow> real \<Rightarrow> mavsystem \<Rightarrow> mavsystem" where
  "add_elem a v t s = obj_update a (\<lambda>d. d\<lparr>payload := add_elem_real v t (payload d)\<rparr>) s"

definition set_type :: "nat \<Rightarrow> data_class \<Rightarrow> mavsystem \<Rightarrow> mavsystem" where
  "set_type a c s = obj_update a (\<lambda>d. d\<lparr>dtype := c\<rparr>) s"

definition clear :: "nat \<Rightarrow> mavsystem \<Rightarrow> mavsystem" where
  "clear a s = obj_update a (\<lambda>d. d\<lparr>payload := clear_payload (payload d)\<rparr>) s"

definition set_epoch_datastart :: "nat \<Rightarrow> 64 word \<Rightarrow> mavsystem \<Rightarrow> mavsystem" where
  "set_epoch_datastart a e s = obj_update a (\<lambda>d. d\<lparr>epoch_datastart := e\<rparr>) s"

subsection \<open>Paths\<close>

text \<open>Modelled from the spec: \<^verbatim>\<open>string_trim\<close> and \<^verbatim>\<open>string_split\<close> come from a header that
  is not part of the sources. Trimming removes blanks at both ends; splitting cuts at
  every separator and keeps empty pieces.\<close>

definition is_blank :: "char \<Rightarrow> bool" where
  "is_blank c = (c = CHR '' '' \<or> c = CHR 0x09 \<or> c = CHR 0x0A \<or> c = CHR 0x0D)"

definition string_trim :: "string \<Rightarrow> string" where
  "string_trim str = rev (dropWhile is_blank (rev (dropWhile is_blank str)))"

fun string_split :: "string \<Rightarrow> char \<Rightarrow> string list" where
  "string_split [] sep = [[]]"
| "string_split (c # cs) sep =
     (if c = sep then [] # string_split cs sep
      else (case string_split cs sep of
              [] \<Rightarrow> [[c]]
            | w # ws \<Rightarrow> (c # w) # ws))"

text \<open>Modelled from the spec: \<^verbatim>\<open>Data::get_fullname\<close> is declared in a header that is not
  part of the sources. The full name is the slash-delimited path: the names of the groups
  above the unit, then the name of the unit.\<close>

definition get_fullname :: "data \<Rightarrow> string" where
  "get_fullname d =
     (case parent d of
        None \<Rightarrow> name d
      | Some p \<Rightarrow> foldr (\<lambda>seg acc. seg @ ''/'' @ acc) p (name d))"

subsection \<open>The hierarchy\<close>

text \<open>The loop of \<^verbatim>\<open>_data_register_hierarchy\<close>: walk down the group names, create the
  groups that do not exist, and hook the item into the data map of the last group under
  the item's own name.\<close>

fun hook_data ::
  "string list \<Rightarrow> string \<Rightarrow> nat \<Rightarrow> (string \<times> datagroup) list \<Rightarrow> (string \<times> datagroup) list"
where
  "hook_data [] nm item gm = gm"
| "hook_data (g # rest) nm item gm =
     (let curgroup = (case map_find g gm of None \<Rightarrow> DataGroup g [] [] | Some G \<Rightarrow> G);
          curgroup' =
            (if rest = []
             then DataGroup (groupname curgroup) (groups curgroup)
                    (map_assign nm item (gdata curgroup))
             else DataGroup (groupname curgroup)
                    (hook_data rest nm item (groups curgroup)) (gdata curgroup))
      in map_assign g curgroup' gm)"

text \<open>\<^verbatim>\<open>MavSystem::_data_register_hierarchy\<close>. The flat map is keyed by the name as it was
  passed, the groups by the pieces of the trimmed name. Without a group in the name
  (\<^verbatim>\<open>curgroup\<close> stays \<^verbatim>\<open>NULL\<close>) the function returns before it hooks the item into the
  tree.\<close>

definition data_register_hierarchy :: "string \<Rightarrow> nat \<Rightarrow> mavsystem \<Rightarrow> mavsystem" where
  "data_register_hierarchy fullname item s =
     (let fullpath = string_trim fullname;
          s1 = s\<lparr>data_from_path := map_assign fullname item (data_from_path s)\<rparr>;
          path = butlast (string_split fullpath CHR ''/'')
      in if path = [] then s1
         else (case obj_at s1 item of
                 None \<Rightarrow> s1
               | Some d \<Rightarrow>
                   (obj_update item (\<lambda>d. d\<lparr>parent := Some path\<rparr>) s1)
                     \<lparr>mav_data_groups := hook_data path (name d) item (mav_data_groups s1)\<rparr>))"

text \<open>Following a \<^verbatim>\<open>DataGroup*\<close>.\<close>

fun group_at :: "string list \<Rightarrow> (string \<times> datagroup) list \<Rightarrow> datagroup option" where
  "group_at [] gm = None"
| "group_at (g # rest) gm =
     (case map_find g gm of
        None \<Rightarrow> None
      | Some G \<Rightarrow> if rest = [] then Some G else group_at rest (groups G))"

text \<open>\<^verbatim>\<open>parentgroup->data.erase(it)\<close> in the group a pointer refers to.\<close>

fun erase_data ::
  "string list \<Rightarrow> string \<Rightarrow> (string \<times> datagroup) list \<Rightarrow> (string \<times> datagroup) list"
where
  "erase_data [] nm gm = gm"
| "erase_data (g # rest) nm gm =
     (case map_find g gm of
        None \<Rightarrow> gm
      | Some G \<Rightarrow>
          map_assign g
            (if rest = [] then DataGroup (groupname G) (groups G) (map_erase nm (gdata G))
             else DataGroup (groupname G) (erase_data rest nm (groups G)) (gdata G)) gm)"

text \<open>\<^verbatim>\<open>groups.erase\<close> in the group map that a parent pointer refers to; the null parent
  stands for the top-level map of the system.\<close>

fun erase_group ::
  "string list \<Rightarrow> string \<Rightarrow> (string \<times> datagroup) list \<Rightarrow> (string \<times> datagroup) list"
where
  "erase_group [] k gm = map_erase k gm"
| "erase_group (g # rest) k gm =
     (case map_find g gm of
        None \<Rightarrow> gm
      | Some G \<Rightarrow>
          map_assign g (DataGroup (groupname G) (erase_group rest k (groups G)) (gdata G)) gm)"

text \<open>The \<^verbatim>\<open>while (curgroup)\<close> loop of \<^verbatim>\<open>_data_unregister_hierarchy\<close>: from the group that
  held the data upwards, a group without child groups and without data is erased from
  its parent (or from the top-level map) under its own group name.\<close>

function prune :: "string list \<Rightarrow> (string \<times> datagroup) list \<Rightarrow> (string \<times> datagroup) list"
where
  "prune curgroup gm =
     (if curgroup = [] then gm
      else (let parentgroup = butlast curgroup
            in case group_at curgroup gm of
                 None \<Rightarrow> gm
               | Some G \<Rightarrow>
                   if groups G = [] \<and> gdata G = []
                   then prune parentgroup (erase_group parentgroup (groupname G) gm)
                   else prune parentgroup gm))"
  by pat_completeness auto
termination
  by (relation "measure (\<lambda>(p, gm). length p)") auto

text \<open>\<^verbatim>\<open>MavSystem::_data_unregister_hierarchy\<close>.\<close>

definition data_unregister_hierarchy :: "nat \<Rightarrow> mavsystem \<Rightarrow> mavsystem" where
  "data_unregister_hierarchy src s =
     (case obj_at s src of
        None \<Rightarrow> s
      | Some d \<Rightarrow>
          (case parent d of
             None \<Rightarrow> s
           | Some parentgroup \<Rightarrow>
               (case group_at parentgroup (mav_data_groups s) of
                  None \<Rightarrow> s
                | Some G \<Rightarrow>
                    (case map_find (name d) (gdata G) of
                       None \<Rightarrow> s
                     | Some it \<Rightarrow>
                         s\<lparr>mav_data_groups :=
                             prune parentgroup
                               (erase_data parentgroup (name d) (mav_data_groups s))\<rparr>))))"

text \<open>\<^verbatim>\<open>MavSystem::_del_data\<close>.\<close>

definition del_data :: "nat \<Rightarrow> mavsystem \<Rightarrow> mavsystem" where
  "del_data src s =
     (case obj_at s src of
        None \<Rightarrow> s
      | Some d \<Rightarrow>
          (let fullpath = get_fullname d;
               s1 = s\<lparr>data_from_path := map_erase fullpath (data_from_path s)\<rparr>;
               s2 = data_unregister_hierarchy src s1
           in s2\<lparr>objs := (objs s2)[src := None]\<rparr>))"

text \<open>Modelled from the spec: the member templates \<^verbatim>\<open>_get_data\<close> and \<^verbatim>\<open>get_data\<close> are
  declared in the header of the class, which is not part of the sources. The lookup by
  exact path reads the flat map; the result is the address of a live object.\<close>

definition get_data :: "string \<Rightarrow> mavsystem \<Rightarrow> nat option" where
  "get_data fullname s =
     (case map_find fullname (data_from_path s) of
        None \<Rightarrow> None
      | Some a \<Rightarrow> (case obj_at s a of None \<Rightarrow> None | Some d \<Rightarrow> Some a))"

text \<open>The typed lookup: \<^verbatim>\<open>_get_data<T>\<close> yields \<^verbatim>\<open>NULL\<close> for a unit of another type. The type
  \<open>T\<close> is given by an empty payload of that variant.\<close>

definition get_data_typed :: "payload \<Rightarrow> string \<Rightarrow> mavsystem \<Rightarrow> nat option" where
  "get_data_typed k fullname s =
     (case get_data fullname s of
        None \<Rightarrow> None
      | Some a \<Rightarrow>
          (case obj_at s a of
             None \<Rightarrow> None
           | Some d \<Rightarrow> if same_kind (payload d) k then Some a else None))"

text \<open>Modelled from the spec: the macros \<^verbatim>\<open>MAVSYSTEM_DATA_ITEM_OR_RETURN\<close> and
  \<^verbatim>\<open>MAVSYSTEM_REQUIRE_DATA\<close> come from \<^verbatim>\<open>mavsystem_macros.h\<close>, which is not part of the
  sources. A data unit is created lazily on the first write to its path (section 3): the
  first macro looks the path up and, when nothing is registered there, creates an empty
  raw unit named by the last piece of the path and registers it; the enclosing function
  returns when no unit of the requested type can be had. The second macro only looks the
  path up and returns from the enclosing function when the unit is missing. The rest of
  the enclosing function is the argument \<open>body\<close>.\<close>

definition get_and_possibly_create_data ::
  "payload \<Rightarrow> string \<Rightarrow> string \<Rightarrow> mavsystem \<Rightarrow> nat option \<times> mavsystem"
where
  "get_and_possibly_create_data k fullname u s =
     (case get_data fullname s of
        Some a \<Rightarrow> (get_data_typed k fullname s, s)
      | None \<Rightarrow>
          (let (a, s1) = new_data \<lparr> name = last (string_split fullname CHR ''/''), units = u,
                              dtype = DATA_RAW, epoch_datastart = 0, parent = None,
                              payload = clear_payload k \<rparr> s
           in (Some a, data_register_hierarchy fullname a s1)))"

definition DATA_ITEM_OR_RETURN ::
  "payload \<Rightarrow> string \<Rightarrow> string \<Rightarrow> (nat \<Rightarrow> mavsystem \<Rightarrow> mavsystem) \<Rightarrow> mavsystem \<Rightarrow> mavsystem"
where
  "DATA_ITEM_OR_RETURN k fullname u body s =
     (case get_and_possibly_create_data k fullname u s of
        (None, s') \<Rightarrow> s'
      | (Some a, s') \<Rightarrow> body a s')"

definition REQUIRE_DATA ::
  "payload \<Rightarrow> string \<Rightarrow> (nat \<Rightarrow> mavsystem \<Rightarrow> mavsystem) \<Rightarrow> mavsystem \<Rightarrow> mavsystem"
where
  "REQUIRE_DATA k fullname body s =
     (case get_data_typed k fullname s of None \<Rightarrow> s | Some a \<Rightarrow> body a s)"

subsection \<open>Tracking\<close>

text \<open>\<^verbatim>\<open>MavSystem::track_sysperf\<close>.\<close>

definition track_sysperf :: "real \<Rightarrow> real \<Rightarrow> real \<Rightarrow> mavsystem \<Rightarrow> mavsystem" where
  "track_sysperf load bat_V bat_A =
     DATA_ITEM_OR_RETURN (TimeseriesFloat []) ''computer/autopilot_load'' ''%'' (\<lambda>data_autopilot_load.
     DATA_ITEM_OR_RETURN (TimeseriesFloat []) ''power/battery_voltage'' ''V'' (\<lambda>data_battery_volt.
     DATA_ITEM_OR_RETURN (TimeseriesFloat []) ''power/battery_current'' ''A'' (\<lambda>data_battery_amps s.
       let s1 = add_elem data_autopilot_load load (time s) s;
           s2 = (if bat_A > 0 then add_elem data_battery_amps bat_A (time s1) s1 else s1);
           s3 = (if bat_V > 0 then add_elem data_battery_volt bat_V (time s2) s2 else s2)
       in s3)))"

text \<open>\<^verbatim>\<open>MavSystem::track_paths\<close>.\<close>

definition track_paths :: "real \<Rightarrow> real \<Rightarrow> real \<Rightarrow> real \<Rightarrow> real \<Rightarrow> mavsystem \<Rightarrow> mavsystem" where
  "track_paths lat lon alt_rel_m alt_msl_m heading_deg =
     DATA_ITEM_OR_RETURN (TimeseriesDouble []) ''airstate/lat'' [] (\<lambda>data_lat.
     DATA_ITEM_OR_RETURN (TimeseriesDouble []) ''airstate/lon'' [] (\<lambda>data_lon.
     DATA_ITEM_OR_RETURN (TimeseriesFloat []) ''airstate/alt GND'' ''m'' (\<lambda>data_alt_GND.
     DATA_ITEM_OR_RETURN (TimeseriesFloat []) ''airstate/alt MSL'' ''m'' (\<lambda>data_alt_MSL.
     DATA_ITEM_OR_RETURN (TimeseriesFloat []) ''airstate/heading'' ''deg'' (\<lambda>data_heading s.
       let s1 = add_elem data_lat lat (time s) s;
           s2 = add_elem data_lon lon (time s1) s1;
           s3 = add_elem data_alt_GND alt_rel_m (time s2) s2;
           s4 = add_elem data_alt_MSL alt_msl_m (time s3) s3
       in if heading_deg \<le> 360 then add_elem data_heading heading_deg (time s4) s4
          else s4)))))"

subsection \<open>Reading the store\<close>

text \<open>The payload of the object at an address, the samples of a series, and the samples
  of the series registered under a path. A path that is not registered, or that holds no
  series, has no samples.\<close>

definition payload_at :: "mavsystem \<Rightarrow> nat \<Rightarrow> payload option" where
  "payload_at s a = map_option payload (obj_at s a)"

fun samples :: "payload \<Rightarrow> (real \<times> real) list" where
  "samples (TimeseriesFloat xs) = xs"
| "samples (TimeseriesDouble xs) = xs"
| "samples p = []"

definition series :: "mavsystem \<Rightarrow> string \<Rightarrow> (real \<times> real) list" where
  "series s path =
     (case map_find path (data_from_path s) of
        None \<Rightarrow> []
      | Some a \<Rightarrow> (case payload_at s a of None \<Rightarrow> [] | Some p \<Rightarrow> samples p))"

text \<open>The flat map is well formed when no object is registered under two paths and every
  registered address lies inside the store.\<close>

definition wf_flat :: "mavsystem \<Rightarrow> bool" where
  "wf_flat s = (distinct (map snd (data_from_path s))
      \<and> (\<forall>a \<in> snd ` set (data_from_path s). a < length (objs s)))"

text \<open>A path is usable for a unit of type \<open>k\<close> when it is free or holds a live unit of
  that type, so that \<^verbatim>\<open>MAVSYSTEM_DATA_ITEM_OR_RETURN\<close> does not return.\<close>

definition unit_ok :: "mavsystem \<Rightarrow> payload \<Rightarrow> string \<Rightarrow> bool" where
  "unit_ok s k path =
     (case map_find path (data_from_path s) of
        None \<Rightarrow> True
      | Some a \<Rightarrow> (case payload_at s a of None \<Rightarrow> False | Some p \<Rightarrow> same_kind p k))"

definition is_series :: "mavsystem \<Rightarrow> nat \<Rightarrow> bool" where
  "is_series s a = (case payload_at s a of None \<Rightarrow> False
     | Some p \<Rightarrow> same_kind p (TimeseriesFloat []) \<or> same_kind p (TimeseriesDouble []))"

definition has_series :: "mavsystem \<Rightarrow> string \<Rightarrow> nat \<Rightarrow> bool" where
  "has_series s P a = (map_find P (data_from_path s) = Some a \<and> is_series s a)"

subsection \<open>Absolute time\<close>

text \<open>\<^verbatim>\<open>round\<close> of the C library: to the nearest integer, halfway cases away from zero.\<close>

definition c_round :: "real \<Rightarrow> int" where
  "c_round x = (if 0 \<le> x then \<lfloor>x + 1 / 2\<rfloor> else - \<lfloor>- x + 1 / 2\<rfloor>)"

text \<open>\<^verbatim>\<open>MavSystem::update_time_offset\<close>: a reference pair holds the relative time first and
  the epoch time second, both \<^verbatim>\<open>uint64_t\<close>.\<close>

definition update_time_offset :: "64 word \<Rightarrow> 64 word \<Rightarrow> bool \<Rightarrow> mavsystem \<Rightarrow> mavsystem" where
  "update_time_offset nowtime_relative_usec epoch_usec allowjumps s =
     (let s1 = snd (update_rel_time nowtime_relative_usec allowjumps s)
      in if epoch_usec > 0
         then s1\<lparr>time_offset_raw := time_offset_raw s1 @ [(nowtime_relative_usec, epoch_usec)]\<rparr>
         else s1)"

text \<open>\<^verbatim>\<open>MavSystem::determine_absolute_time\<close>. The difference \<^verbatim>\<open>it->second - it->first\<close> is
  taken in \<^verbatim>\<open>uint64_t\<close> and wraps around when the relative time is the larger one; the sum
  and the mean are doubles. The loop at the end writes the offset into every unit of the
  flat map.\<close>

definition determine_absolute_time :: "mavsystem \<Rightarrow> mavsystem" where
  "determine_absolute_time s =
     (let s1 =
        (if time_offset_raw s \<noteq> []
         then (let sum_diff = foldl (\<lambda>sum_diff (first, second).
                                sum_diff + real (unat (second - first))) 0 (time_offset_raw s);
                   mean_diff = sum_diff / real (length (time_offset_raw s))
               in s\<lparr>time_offset_usec := word_of_int (c_round mean_diff)\<rparr>)
         else s\<lparr>time_offset_usec := time_offset_guess_usec s\<rparr>)
      in foldl (\<lambda>s' (path, a). set_epoch_datastart a (time_offset_usec s1) s') s1
           (data_from_path s1))"


subsection \<open>Active time\<close>








subsection \<open>An example system\<close>

text \<open>One voltage series with two samples, registered under \<^verbatim>\<open>power/battery_voltage\<close>,
  and the two reference pairs of the offset scenario of the specification.\<close>

definition example_unit :: data where
  "example_unit = \<lparr> name = ''battery_voltage'', units = ''V'', dtype = DATA_RAW,
     epoch_datastart = 0, parent = Some [''power''],
     payload = TimeseriesFloat [(0, 12), (10, 12)] \<rparr>"

definition example_sys :: mavsystem where
  "example_sys = MavSystem\<lparr> time_offset_raw := [(0, 1000), (10000000, 1011000000)],
       objs := [Some example_unit],
       data_from_path := [(''power/battery_voltage'', 0)],
       mav_data_groups := [(''power'', DataGroup ''power'' [] [(''battery_voltage'', 0)])] \<rparr>"

subsection \<open>Reading series through pointers\<close>

text \<open>Modelled from the spec: the reading methods of \<^verbatim>\<open>DataTimeseries\<close> (section 4.2).
  \<^verbatim>\<open>get_data(k, t, v)\<close> yields the sample with index \<open>k\<close> and fails beyond the last one.
  \<^verbatim>\<open>get_data_at_time(t, v)\<close> interpolates linearly between the two samples that bracket
  \<open>t\<close>, clamps to the first or last sample outside of them, and fails on an empty
  series.\<close>

definition float_series_at :: "mavsystem \<Rightarrow> nat \<Rightarrow> (real \<times> real) list" where
  "float_series_at s a = (case obj_at s a of None \<Rightarrow> [] | Some d \<Rightarrow> float_samples (payload d))"

definition series_size :: "mavsystem \<Rightarrow> nat \<Rightarrow> nat" where
  "series_size s a = length (float_series_at s a)"

definition series_get_data :: "mavsystem \<Rightarrow> nat \<Rightarrow> nat \<Rightarrow> (real \<times> real) option" where
  "series_get_data s a k =
     (if k < length (float_series_at s a) then Some (float_series_at s a ! k) else None)"

fun interpolate :: "(real \<times> real) list \<Rightarrow> real \<Rightarrow> real option" where
  "interpolate [] t = None"
| "interpolate [(t0, v0)] t = Some v0"
| "interpolate ((t0, v0) # (t1, v1) # rest) t =
     (if t \<le> t0 then Some v0
      else if t \<le> t1 then Some (v0 + (v1 - v0) * (t - t0) / (t1 - t0))
      else interpolate ((t1, v1) # rest) t)"

definition get_data_at_time :: "mavsystem \<Rightarrow> nat \<Rightarrow> real \<Rightarrow> real option" where
  "get_data_at_time s a t = interpolate (float_series_at s a) t"

definition get_epoch_datastart :: "mavsystem \<Rightarrow> nat \<Rightarrow> 64 word" where
  "get_epoch_datastart s a = (case obj_at s a of None \<Rightarrow> 0 | Some d \<Rightarrow> epoch_datastart d)"

definition event_add_elem :: "nat \<Rightarrow> string \<Rightarrow> real \<Rightarrow> mavsystem \<Rightarrow> mavsystem" where
  "event_add_elem a v t s = obj_update a (\<lambda>d. d\<lparr>payload := add_elem_string v t (payload d)\<rparr>) s"

definition param_add_uint :: "nat \<Rightarrow> 32 word \<Rightarrow> mavsystem \<Rightarrow> mavsystem" where
  "param_add_uint a v s = obj_update a (\<lambda>d. d\<lparr>payload := add_param_uint v (payload d)\<rparr>) s"

definition param_add_double :: "nat \<Rightarrow> real \<Rightarrow> mavsystem \<Rightarrow> mavsystem" where
  "param_add_double a v s = obj_update a (\<lambda>d. d\<lparr>payload := add_param_double v (payload d)\<rparr>) s"

subsection \<open>The flight book\<close>

text \<open>The local variables of the loop of \<^verbatim>\<open>_postprocess_flightbook\<close>.\<close>

record flightbook_vars =
  flying :: bool
  t_takeoff :: real
  t_first_takeoff :: real
  t_last_landing :: real
  nflights :: "32 word"
  flighttime :: real

text \<open>The body of the loop for the altitude sample with index \<open>k\<close>.\<close>

definition flightbook_step ::
  "nat \<Rightarrow> nat \<Rightarrow> nat \<Rightarrow> flightbook_vars \<times> mavsystem \<Rightarrow> nat \<Rightarrow> flightbook_vars \<times> mavsystem"
where
  "flightbook_step data_alt data_throttle_percent evt_takeofflanding vs k =
     (let (v, s) = vs in
      case series_get_data s data_alt k of
        None \<Rightarrow> (v, s)
      | Some (t, alt) \<Rightarrow>
          (case get_data_at_time s data_throttle_percent t of
             None \<Rightarrow> (v, s)
           | Some throttle \<Rightarrow>
               (let seems_flying = (alt > 1 \<and> throttle > 20) in
                if seems_flying \<and> \<not> flying v then
                  (let s1 = event_add_elem evt_takeofflanding ''takeoff'' t s;
                       n = nflights v + 1
                   in (v\<lparr>flying := True, nflights := n,
                         t_first_takeoff := (if n = 1 then t else t_first_takeoff v),
                         t_takeoff := t\<rparr>, s1))
                else if \<not> seems_flying \<and> flying v then
                  (let s1 = event_add_elem evt_takeofflanding ''landing'' t s
                   in (v\<lparr>flying := False, t_last_landing := t,
                         flighttime := flighttime v + (t - t_takeoff v)\<rparr>, s1))
                else (v, s))))"

text \<open>\<^verbatim>\<open>MavSystem::_postprocess_flightbook\<close>, in two parts. The first definition is the
  part after the macros: it marks the five outputs as derived, clears them, sets their
  epoch baseline, runs the loop and stores the four parameters. The loop runs over the
  indices below the size of the altitude series (the counter is an \<^verbatim>\<open>unsigned int\<close>, so
  this covers series of fewer than \<open>2 ^ 32\<close> samples); its body never changes a float
  series.\<close>

definition flightbook_body ::
  "nat \<Rightarrow> nat \<Rightarrow> 64 word \<Rightarrow> nat \<Rightarrow> nat \<Rightarrow> nat \<Rightarrow> nat \<Rightarrow> nat \<Rightarrow> mavsystem \<Rightarrow> mavsystem"
where
  "flightbook_body data_alt data_throttle_percent epoch_datastart_usec evt_takeofflanding
       data_nflights data_flighttime data_first_takeoff data_last_landing s =
     (let outs = [evt_takeofflanding, data_nflights, data_flighttime, data_first_takeoff,
                  data_last_landing];
          s1 = foldl (\<lambda>s a. set_type a DATA_DERIVED s) s outs;
          s2 = foldl (\<lambda>s a. clear a s) s1 outs;
          s3 = foldl (\<lambda>s a. set_epoch_datastart a epoch_datastart_usec s) s2 outs;
          (v, s4) = foldl (flightbook_step data_alt data_throttle_percent evt_takeofflanding)
                      (\<lparr>flying = False, t_takeoff = 0, t_first_takeoff = 0,
                        t_last_landing = 0, nflights = 0, flighttime = 0\<rparr>, s3)
                      [0 ..< series_size s3 data_alt];
          s5 = param_add_uint data_nflights (nflights v) s4;
          s6 = param_add_double data_flighttime (flighttime v) s5;
          s7 = param_add_double data_first_takeoff (t_first_takeoff v) s6;
          s8 = param_add_double data_last_landing (t_last_landing v) s7
      in s8)"

definition postprocess_flightbook :: "mavsystem \<Rightarrow> mavsystem" where
  "postprocess_flightbook =
     REQUIRE_DATA (TimeseriesFloat []) ''airstate/alt GND'' (\<lambda>data_alt.
     REQUIRE_DATA (TimeseriesFloat []) ''airstate/throttle'' (\<lambda>data_throttle_percent s.
       if get_epoch_datastart s data_alt \<noteq> get_epoch_datastart s data_throttle_percent then s
       else
       (let epoch_datastart_usec = get_epoch_datastart s data_alt in
        DATA_ITEM_OR_RETURN (EventString []) ''flightbook/takeoff_landing'' [] (\<lambda>evt_takeofflanding.
        DATA_ITEM_OR_RETURN (ParamUInt []) ''flightbook/number flights'' [] (\<lambda>data_nflights.
        DATA_ITEM_OR_RETURN (ParamDouble []) ''flightbook/total flight time'' ''s'' (\<lambda>data_flighttime.
        DATA_ITEM_OR_RETURN (ParamDouble []) ''flightbook/first takeoff'' ''[time epoch]'' (\<lambda>data_first_takeoff.
        DATA_ITEM_OR_RETURN (ParamDouble []) ''flightbook/last landing'' ''[time epoch]'' (\<lambda>data_last_landing.
          flightbook_body data_alt data_throttle_percent epoch_datastart_usec
            evt_takeofflanding data_nflights data_flighttime data_first_takeoff
            data_last_landing))))) s)))"

subsection \<open>The flight book in the words of the specification\<close>

text \<open>Whether the vehicle seems to fly at each altitude sample for which the throttle can
  be interpolated: altitude above 1 and throttle above 20.\<close>

definition flying_flags :: "(real \<times> real) list \<Rightarrow> (real \<times> real) list \<Rightarrow> (real \<times> bool) list" where
  "flying_flags alt thr =
     concat (map (\<lambda>(t, a). case interpolate thr t of
                               None \<Rightarrow> []
                             | Some throttle \<Rightarrow> [(t, a > 1 \<and> throttle > 20)]) alt)"

text \<open>A takeoff at each edge from not flying to flying, a landing at each edge back.\<close>

fun edge_events :: "bool \<Rightarrow> (real \<times> bool) list \<Rightarrow> (real \<times> string) list" where
  "edge_events prev [] = []"
| "edge_events prev ((t, f) # rest) =
     (if f \<and> \<not> prev then (t, ''takeoff'') # edge_events f rest
      else if \<not> f \<and> prev then (t, ''landing'') # edge_events f rest
      else edge_events f rest)"

definition count_takeoffs :: "(real \<times> string) list \<Rightarrow> nat" where
  "count_takeoffs ev = length (filter (\<lambda>e. snd e = ''takeoff'') ev)"

text \<open>The summed durations: each landing adds the time since the takeoff before it.\<close>

fun flight_time_from :: "real \<Rightarrow> (real \<times> string) list \<Rightarrow> real" where
  "flight_time_from t0 [] = 0"
| "flight_time_from t0 ((t, e) # ev) =
     (if e = ''takeoff'' then flight_time_from t ev else (t - t0) + flight_time_from t0 ev)"

text \<open>The time of the first and of the last event of a kind, or a default when there is
  none.\<close>

fun first_event_time :: "string \<Rightarrow> real \<Rightarrow> (real \<times> string) list \<Rightarrow> real" where
  "first_event_time kind dflt [] = dflt"
| "first_event_time kind dflt ((t, e) # ev) = (if e = kind then t else first_event_time kind dflt ev)"

fun last_event_time :: "string \<Rightarrow> real \<Rightarrow> (real \<times> string) list \<Rightarrow> real" where
  "last_event_time kind dflt [] = dflt"
| "last_event_time kind dflt ((t, e) # ev) =
     last_event_time kind (if e = kind then t else dflt) ev"

text \<open>The loop of the flight book on values: the local variables and the event log, one
  step per altitude sample.\<close>

definition flightbook_value_step ::
  "(real \<times> real) list \<Rightarrow> flightbook_vars \<times> (real \<times> string) list \<Rightarrow> real \<times> real
     \<Rightarrow> flightbook_vars \<times> (real \<times> string) list"
where
  "flightbook_value_step thr ve sample =
     (let (v, ev) = ve; (t, alt) = sample in
      case interpolate thr t of
        None \<Rightarrow> (v, ev)
      | Some throttle \<Rightarrow>
          (let seems_flying = (alt > 1 \<and> throttle > 20) in
           if seems_flying \<and> \<not> flying v then
             (let n = nflights v + 1
              in (v\<lparr>flying := True, nflights := n,
                    t_first_takeoff := (if n = 1 then t else t_first_takeoff v),
                    t_takeoff := t\<rparr>, ev @ [(t, ''takeoff'')]))
           else if \<not> seems_flying \<and> flying v then
             (v\<lparr>flying := False, t_last_landing := t,
                flighttime := flighttime v + (t - t_takeoff v)\<rparr>, ev @ [(t, ''landing'')])
           else (v, ev)))"

text \<open>Reading the store by path.\<close>

definition unit_of :: "mavsystem \<Rightarrow> string \<Rightarrow> data option" where
  "unit_of s P = (case map_find P (data_from_path s) of None \<Rightarrow> None | Some a \<Rightarrow> obj_at s a)"

definition points_to :: "mavsystem \<Rightarrow> string \<Rightarrow> nat \<Rightarrow> bool" where
  "points_to s P a = (map_find P (data_from_path s) = Some a \<and> obj_at s a \<noteq> None)"

text \<open>The unit that \<^verbatim>\<open>MAVSYSTEM_DATA_ITEM_OR_RETURN\<close> creates for a free path, after its
  registration.\<close>

definition fresh_unit :: "payload \<Rightarrow> string \<Rightarrow> string \<Rightarrow> data" where
  "fresh_unit k P u =
     \<lparr> name = last (string_split P CHR ''/''), units = u, dtype = DATA_RAW, epoch_datastart = 0,
       parent = (let path = butlast (string_split (string_trim P) CHR ''/'')
                 in if path = [] then None else Some path),
       payload = clear_payload k \<rparr>"

definition payload_of :: "mavsystem \<Rightarrow> string \<Rightarrow> payload option" where
  "payload_of s P = map_option payload (unit_of s P)"

text \<open>What one use of \<^verbatim>\<open>MAVSYSTEM_DATA_ITEM_OR_RETURN\<close> does when the path is usable: the
  rest of the function runs with the address \<open>a\<close> of the unit \<open>d\<close> in the system \<open>s'\<close>,
  in which the path is registered and everything else is as before.\<close>

definition item_made ::
  "mavsystem \<Rightarrow> payload \<Rightarrow> string \<Rightarrow> string \<Rightarrow> nat \<Rightarrow> mavsystem \<Rightarrow> data \<Rightarrow> bool"
where
  "item_made s k P u a s' d \<longleftrightarrow>
     (\<forall>body. DATA_ITEM_OR_RETURN k P u body s = body a s')
     \<and> points_to s' P a \<and> wf_flat s' \<and> time s' = time s
     \<and> unit_of s' = (unit_of s)(P := Some (case unit_of s P of None \<Rightarrow> fresh_unit k P u
                                            | Some d0 \<Rightarrow> d0))
     \<and> (\<forall>Q b. points_to s Q b \<longrightarrow> points_to s' Q b)
     \<and> (\<forall>Q k'. Q \<noteq> P \<longrightarrow> unit_ok s k' Q \<longrightarrow> unit_ok s' k' Q)
     \<and> obj_at s' a = Some d \<and> same_kind (payload d) k
     \<and> (\<forall>b d'. obj_at s b = Some d' \<longrightarrow> obj_at s' b = Some d')"

text \<open>The flight-book scenario of the specification: altitude 0, 0, 5, 5, 0, 0 and throttle
  0, 0, 50, 50, 0, 0 at the times 0 to 5.\<close>

definition flightbook_example :: mavsystem where
  "flightbook_example = MavSystem\<lparr>
     objs := [Some \<lparr> name = ''alt GND'', units = ''m'', dtype = DATA_RAW, epoch_datastart = 0,
                    parent = Some [''airstate''],
                    payload = TimeseriesFloat [(0, 0), (1, 0), (2, 5), (3, 5), (4, 0), (5, 0)] \<rparr>,
              Some \<lparr> name = ''throttle'', units = ''%'', dtype = DATA_RAW, epoch_datastart = 0,
                    parent = Some [''airstate''],
                    payload = TimeseriesFloat [(0, 0), (1, 0), (2, 50), (3, 50), (4, 0), (5, 0)] \<rparr>],
     data_from_path := [(''airstate/alt GND'', 0), (''airstate/throttle'', 1)],
     mav_data_groups := [(''airstate'', DataGroup ''airstate'' []
                            [(''alt GND'', 0), (''throttle'', 1)])] \<rparr>"

subsection \<open>Power statistics\<close>

text \<open>The first loop of \<^verbatim>\<open>_postprocess_powerstats\<close>: the power at each voltage sample, with
  the current interpolated.\<close>

definition powerstats_power_step :: "nat \<Rightarrow> nat \<Rightarrow> nat \<Rightarrow> mavsystem \<Rightarrow> nat \<Rightarrow> mavsystem" where
  "powerstats_power_step data_battery_volt data_battery_amps data_power s k =
     (case series_get_data s data_battery_volt k of
        None \<Rightarrow> s
      | Some (t, volt) \<Rightarrow>
          (case get_data_at_time s data_battery_amps t of
             None \<Rightarrow> s
           | Some amps \<Rightarrow> add_elem data_power (volt * amps) t s))"

text \<open>The local variables of the two integration loops: the running sum and the
  previous sample. The code leaves \<^verbatim>\<open>fa\<close> and \<^verbatim>\<open>ta\<close> uninitialised; they are written at
  index 0 before they are read.\<close>

record trapz_vars =
  cumulated :: real
  fa :: real
  ta :: real

text \<open>The body of both integration loops (charge from the current, consumption from the
  power): the trapezoid between the previous and the current sample goes to the
  instantaneous series, the running sum divided by 3600 to the cumulated one.\<close>

definition trapz_step :: "nat \<Rightarrow> nat \<Rightarrow> nat \<Rightarrow> trapz_vars \<times> mavsystem \<Rightarrow> nat \<Rightarrow> trapz_vars \<times> mavsystem" where
  "trapz_step src data_inst data_cum vs k =
     (let (v, s) = vs in
      case series_get_data s src k of
        None \<Rightarrow> (v, s)
      | Some (t, f) \<Rightarrow>
          if k = 0 then
            (v\<lparr>ta := t, fa := f\<rparr>, add_elem data_cum 0 t (add_elem data_inst 0 t s))
          else
            (let tb = t; fb = f;
                 charge = (tb - ta v) * (fa v + fb) / 2;
                 c = cumulated v + charge
             in (\<lparr>cumulated = c, fa = fb, ta = tb\<rparr>,
                 add_elem data_cum (c / 3600) t (add_elem data_inst charge t s))))"

text \<open>\<^verbatim>\<open>MavSystem::_postprocess_powerstats\<close>, in two parts as for the flight book. Each loop
  runs over the indices below the size that its source series has when the loop
  starts.\<close>

definition powerstats_body ::
  "nat \<Rightarrow> nat \<Rightarrow> 64 word \<Rightarrow> nat \<Rightarrow> nat \<Rightarrow> nat \<Rightarrow> nat \<Rightarrow> nat \<Rightarrow> mavsystem \<Rightarrow> mavsystem"
where
  "powerstats_body data_battery_volt data_battery_amps epoch_datastart_usec data_power
       data_consumption data_charge data_cconsumption data_ccharge s =
     (let outs = [data_power, data_consumption, data_cconsumption, data_charge, data_ccharge];
          s1 = foldl (\<lambda>s a. set_type a DATA_DERIVED s) s outs;
          s2 = foldl (\<lambda>s a. clear a s) s1 outs;
          s3 = foldl (\<lambda>s a. set_epoch_datastart a epoch_datastart_usec s) s2 outs;
          s4 = foldl (powerstats_power_step data_battery_volt data_battery_amps data_power) s3
                 [0 ..< series_size s3 data_battery_volt];
          (v5, s5) = foldl (trapz_step data_battery_amps data_charge data_ccharge)
                       (\<lparr>cumulated = 0, fa = 0, ta = 0\<rparr>, s4)
                       [0 ..< series_size s4 data_battery_amps];
          (v6, s6) = foldl (trapz_step data_power data_consumption data_cconsumption)
                       (\<lparr>cumulated = 0, fa = 0, ta = 0\<rparr>, s5)
                       [0 ..< series_size s5 data_power]
      in s6)"

definition postprocess_powerstats :: "mavsystem \<Rightarrow> mavsystem" where
  "postprocess_powerstats =
     REQUIRE_DATA (TimeseriesFloat []) ''power/battery_voltage'' (\<lambda>data_battery_volt.
     REQUIRE_DATA (TimeseriesFloat []) ''power/battery_current'' (\<lambda>data_battery_amps s.
       if get_epoch_datastart s data_battery_volt \<noteq> get_epoch_datastart s data_battery_amps
       then s
       else
       (let epoch_datastart_usec = get_epoch_datastart s data_battery_amps in
        DATA_ITEM_OR_RETURN (TimeseriesFloat []) ''power/power'' ''W'' (\<lambda>data_power.
        DATA_ITEM_OR_RETURN (TimeseriesFloat []) ''power/inst. consumption'' ''Ws'' (\<lambda>data_consumption.
        DATA_ITEM_OR_RETURN (TimeseriesFloat []) ''power/inst. charge'' ''As'' (\<lambda>data_charge.
        DATA_ITEM_OR_RETURN (TimeseriesFloat []) ''power/cum. consumption'' ''Wh'' (\<lambda>data_cconsumption.
        DATA_ITEM_OR_RETURN (TimeseriesFloat []) ''power/cum. charge'' ''Ah'' (\<lambda>data_ccharge.
          powerstats_body data_battery_volt data_battery_amps epoch_datastart_usec
            data_power data_consumption data_charge data_cconsumption data_ccharge))))) s)))"

subsection \<open>Power statistics in the words of the specification\<close>








subsection \<open>Lookup by pattern\<close>

text \<open>Modelled from the spec: \<^verbatim>\<open>get_data(pattern, true)\<close> is a member template of the class
  header, which is not part of the sources. It yields the unit of the first path, in the
  iteration order of the flat map, that the regular expression matches somewhere
  (section 4.1), cast to the requested type. The matcher covers the constructs that the
  patterns of the passes use: literal characters, a class of characters in brackets and
  the word boundary \<^verbatim>\<open>\b\<close>.\<close>

datatype rx_item = RxChar char | RxClass "char list" | RxWordBoundary

definition is_word_char :: "char \<Rightarrow> bool" where
  "is_word_char c = (let n = (of_char c :: nat) in
     (48 \<le> n \<and> n \<le> 57) \<or> (65 \<le> n \<and> n \<le> 90) \<or> n = 95 \<or> (97 \<le> n \<and> n \<le> 122))"

fun rx_parse :: "char list option \<Rightarrow> string \<Rightarrow> rx_item list" where
  "rx_parse None [] = []"
| "rx_parse (Some cls) [] = []"
| "rx_parse (Some cls) (c # cs) =
     (if c = CHR '']'' then RxClass (rev cls) # rx_parse None cs else rx_parse (Some (c # cls)) cs)"
| "rx_parse None [c] = (if c = CHR ''['' \<or> c = CHR 0x5C then [] else [RxChar c])"
| "rx_parse None (c # x # cs) =
     (if c = CHR 0x5C then (if x = CHR ''b'' then RxWordBoundary else RxChar x) # rx_parse None cs
      else if c = CHR ''['' then rx_parse (Some []) (x # cs)
      else RxChar c # rx_parse None (x # cs))"

fun rx_match_here :: "rx_item list \<Rightarrow> char option \<Rightarrow> string \<Rightarrow> bool" where
  "rx_match_here [] prev str = True"
| "rx_match_here (RxWordBoundary # items) prev str =
     ((case prev of None \<Rightarrow> False | Some c \<Rightarrow> is_word_char c)
        \<noteq> (case str of [] \<Rightarrow> False | c # _ \<Rightarrow> is_word_char c)
      \<and> rx_match_here items prev str)"
| "rx_match_here (RxChar c # items) prev [] = False"
| "rx_match_here (RxChar c # items) prev (x # xs) = (x = c \<and> rx_match_here items (Some x) xs)"
| "rx_match_here (RxClass cls # items) prev [] = False"
| "rx_match_here (RxClass cls # items) prev (x # xs) =
     (x \<in> set cls \<and> rx_match_here items (Some x) xs)"

fun rx_search :: "rx_item list \<Rightarrow> char option \<Rightarrow> string \<Rightarrow> bool" where
  "rx_search items prev [] = rx_match_here items prev []"
| "rx_search items prev (x # xs) =
     (rx_match_here items prev (x # xs) \<or> rx_search items (Some x) xs)"

text \<open>The two characters \<^verbatim>\<open>\b\<close> of a pattern.\<close>

definition rx_b :: string where
  "rx_b = [CHR 0x5C, CHR ''b'']"

definition regex_matches :: "string \<Rightarrow> string \<Rightarrow> bool" where
  "regex_matches pattern str = rx_search (rx_parse None pattern) None str"

definition get_data_pattern :: "payload \<Rightarrow> string \<Rightarrow> mavsystem \<Rightarrow> nat option" where
  "get_data_pattern k pattern s =
     (case filter (\<lambda>(path, a). regex_matches pattern path) (data_from_path s) of
        [] \<Rightarrow> None
      | (path, a) # _ \<Rightarrow>
          (case obj_at s a of
             None \<Rightarrow> None
           | Some d \<Rightarrow> if same_kind (payload d) k then Some a else None))"

subsection \<open>Timing repair\<close>

text \<open>Modelled from the spec: \<^verbatim>\<open>make_periodic\<close> rewrites the timestamps of a timed unit to
  an evenly spaced sequence from the first to the last time and keeps order and count of
  the samples (section 4.2). \<^verbatim>\<open>has_bad_timestamps\<close> is not specified beyond its purpose
  and is a parameter of the pass. \<^verbatim>\<open>Clone\<close> copies the unit into a new object.\<close>

definition make_periodic_samples :: "(real \<times> 'a) list \<Rightarrow> (real \<times> 'a) list" where
  "make_periodic_samples xs =
     (let n = length xs in
      if n < 2 then xs
      else (let t0 = fst (hd xs); t1 = fst (last xs)
            in map (\<lambda>(k, (t, v)). (t0 + real k * (t1 - t0) / real (n - 1), v))
                 (enumerate 0 xs)))"

fun make_periodic :: "payload \<Rightarrow> payload" where
  "make_periodic (TimeseriesFloat xs) = TimeseriesFloat (make_periodic_samples xs)"
| "make_periodic (TimeseriesDouble xs) = TimeseriesDouble (make_periodic_samples xs)"
| "make_periodic (EventString xs) = EventString (make_periodic_samples xs)"
| "make_periodic p = p"

fun is_timed :: "payload \<Rightarrow> bool" where
  "is_timed (TimeseriesFloat xs) = True"
| "is_timed (TimeseriesDouble xs) = True"
| "is_timed (EventString xs) = True"
| "is_timed p = False"

text \<open>The body of the loop of \<^verbatim>\<open>_postprocess_bad_timing\<close> for one entry of the copied
  map.\<close>

definition bad_timing_step :: "(data \<Rightarrow> bool) \<Rightarrow> mavsystem \<Rightarrow> string \<times> nat \<Rightarrow> mavsystem" where
  "bad_timing_step has_bad_timestamps s entry =
     (let (path, d) = entry in
      case obj_at s d of
        None \<Rightarrow> s
      | Some ds \<Rightarrow>
          if is_timed (payload ds) \<and> has_bad_timestamps ds then
            (let bak_name = name ds @ ''_orig'';
                 (data_orig, s1) = new_data (ds\<lparr>name := bak_name\<rparr>) s;
                 fullname = get_fullname (ds\<lparr>name := bak_name\<rparr>);
                 s2 = data_register_hierarchy fullname data_orig s1
             in obj_update d (\<lambda>x. x\<lparr>payload := make_periodic (payload x)\<rparr>) s2)
          else s)"

text \<open>\<^verbatim>\<open>MavSystem::_postprocess_bad_timing\<close>: the loop runs over a copy of the flat map taken
  before.\<close>

definition postprocess_bad_timing :: "(data \<Rightarrow> bool) \<Rightarrow> mavsystem \<Rightarrow> mavsystem" where
  "postprocess_bad_timing has_bad_timestamps s =
     foldl (bad_timing_step has_bad_timestamps) s (data_from_path s)"

subsection \<open>Glide performance from positions\<close>

text \<open>The local variables of the loop of \<^verbatim>\<open>_postprocess_glideperf_pos\<close>. The code leaves all
  three uninitialised. The previous position is written at index 0 before it is read; the
  previous distance is read at index 1 before it is written, so its first value is
  indeterminate and is a parameter of the pass.\<close>

record glidepos_vars =
  x_pre :: real
  y_pre :: real
  hdist_pre :: real

definition glideperf_pos_step ::
  "nat \<Rightarrow> nat \<Rightarrow> nat \<Rightarrow> nat \<Rightarrow> glidepos_vars \<times> mavsystem \<Rightarrow> nat \<Rightarrow> glidepos_vars \<times> mavsystem"
where
  "glideperf_pos_step data_x data_y data_z data_dist vs k =
     (let (v, s) = vs in
      case series_get_data s data_x k of
        None \<Rightarrow> (v, s)
      | Some (t, x) \<Rightarrow>
          (case get_data_at_time s data_y t of
             None \<Rightarrow> (v, s)
           | Some y \<Rightarrow>
               (case get_data_at_time s data_z t of
                  None \<Rightarrow> (v, s)
                | Some z \<Rightarrow>
                    if k > 0 then
                      (let hdist = sqrt ((x - x_pre v)\<^sup>2 + (y - y_pre v)\<^sup>2) + hdist_pre v
                       in (\<lparr>x_pre = x, y_pre = y, hdist_pre = hdist\<rparr>,
                           add_elem data_dist hdist t s))
                    else (v\<lparr>x_pre := x, y_pre := y\<rparr>, s))))"

text \<open>\<^verbatim>\<open>MavSystem::_postprocess_glideperf_pos\<close>. The output series is marked as derived and is
  not cleared.\<close>

definition postprocess_glideperf_pos :: "real \<Rightarrow> mavsystem \<Rightarrow> mavsystem" where
  "postprocess_glideperf_pos hdist_uninit s =
     (case (get_data_pattern (TimeseriesFloat []) (rx_b @ ''PN'' @ rx_b) s,
            get_data_pattern (TimeseriesFloat []) (rx_b @ ''PE'' @ rx_b) s,
            get_data_pattern (TimeseriesFloat []) (rx_b @ ''PD'' @ rx_b) s) of
        (Some data_x, Some data_y, Some data_z) \<Rightarrow>
          DATA_ITEM_OR_RETURN (TimeseriesFloat []) ''glideperf/cum. horz. dist.'' ''m''
            (\<lambda>data_dist s.
               let s1 = set_type data_dist DATA_DERIVED s
               in snd (foldl (glideperf_pos_step data_x data_y data_z data_dist)
                         (\<lparr>x_pre = 0, y_pre = 0, hdist_pre = hdist_uninit\<rparr>, s1)
                         [0 ..< series_size s1 data_x])) s
      | _ \<Rightarrow> s)"

subsection \<open>Glide performance from velocities\<close>

text \<open>Modelled from the spec: \<^verbatim>\<open>get_max\<close>, \<^verbatim>\<open>get_min\<close> and \<^verbatim>\<open>moving_average\<close> of
  \<^verbatim>\<open>DataTimeseries\<close> (section 4.2). The extremes range over all samples; the moving average
  replaces the samples of the output by one sample per input sample, the mean of all
  input samples whose time lies within half the window of it.\<close>

definition get_max :: "mavsystem \<Rightarrow> nat \<Rightarrow> real" where
  "get_max s a = (case map snd (float_series_at s a) of [] \<Rightarrow> 0 | v # vs \<Rightarrow> foldl max v vs)"

definition get_min :: "mavsystem \<Rightarrow> nat \<Rightarrow> real" where
  "get_min s a = (case map snd (float_series_at s a) of [] \<Rightarrow> 0 | v # vs \<Rightarrow> foldl min v vs)"

definition moving_average_samples :: "(real \<times> real) list \<Rightarrow> real \<Rightarrow> (real \<times> real) list" where
  "moving_average_samples xs window_sec =
     map (\<lambda>(t, v). let ys = filter (\<lambda>(t', v'). \<bar>t' - t\<bar> \<le> window_sec / 2) xs
                    in (t, sum_list (map snd ys) / real (length ys))) xs"

definition moving_average :: "nat \<Rightarrow> nat \<Rightarrow> real \<Rightarrow> mavsystem \<Rightarrow> mavsystem" where
  "moving_average src out window_sec s =
     obj_update out
       (\<lambda>d. d\<lparr>payload := TimeseriesFloat
                 (moving_average_samples (float_series_at s src) window_sec)\<rparr>) s"

text \<open>\<^verbatim>\<open>angle360\<close> of the source, and \<^verbatim>\<open>atan2\<close> of the C library without its rules for
  signed zeros.\<close>

definition angle360 :: "real \<Rightarrow> real" where
  "angle360 x = x - 360 * of_int \<lfloor>x / 360\<rfloor>"

definition atan2 :: "real \<Rightarrow> real \<Rightarrow> real" where
  "atan2 y x =
     (if x > 0 then arctan (y / x)
      else if x < 0 \<and> y \<ge> 0 then arctan (y / x) + pi
      else if x < 0 \<and> y < 0 then arctan (y / x) - pi
      else if y > 0 then pi / 2
      else if y < 0 then - pi / 2
      else 0)"

text \<open>A call of \<^verbatim>\<open>get_data_at_time\<close> whose result the code does not check: on failure the
  variable keeps the value it had.\<close>

definition at_time_or :: "mavsystem \<Rightarrow> nat \<Rightarrow> real \<Rightarrow> real \<Rightarrow> real" where
  "at_time_or s a t dflt = (case get_data_at_time s a t of None \<Rightarrow> dflt | Some v \<Rightarrow> v)"

text \<open>The search for the ground speed: the series \<^verbatim>\<open>NKF1/VE\<close> and \<^verbatim>\<open>NKF1/VN\<close> are fused
  into \<^verbatim>\<open>glideperf/groundspeed\<close>, else \<^verbatim>\<open>GPS/Spd\<close> is taken when it varies enough. The first
  component of the result tells that the enclosing function returns.\<close>

definition glidevel_groundspeed_step :: "nat \<Rightarrow> nat \<Rightarrow> nat \<Rightarrow> mavsystem \<Rightarrow> nat \<Rightarrow> mavsystem" where
  "glidevel_groundspeed_step data_try1 data_try2 data_newspeed s k =
     (case series_get_data s data_try1 k of
        None \<Rightarrow> s
      | Some (t, ve) \<Rightarrow>
          (case get_data_at_time s data_try2 t of
             None \<Rightarrow> s
           | Some vn \<Rightarrow> add_elem data_newspeed (sqrt (ve\<^sup>2 + vn\<^sup>2)) t s))"

definition glidevel_groundspeed :: "mavsystem \<Rightarrow> bool \<times> nat option \<times> mavsystem" where
  "glidevel_groundspeed s =
     (let (returned, data_gspeed, s1) =
        (case (get_data_pattern (TimeseriesFloat []) ''NKF1/VE'' s,
               get_data_pattern (TimeseriesFloat []) ''NKF1/VN'' s) of
           (Some data_try1, Some data_try2) \<Rightarrow>
             (case get_and_possibly_create_data (TimeseriesFloat []) ''glideperf/groundspeed''
                     ''VE and VN'' s of
                (None, s') \<Rightarrow> (True, None, s')
              | (Some data_newspeed, s') \<Rightarrow>
                  (let s'' = foldl (glidevel_groundspeed_step data_try1 data_try2 data_newspeed)
                               s' [0 ..< series_size s' data_try1]
                   in (False, Some data_newspeed, set_type data_newspeed DATA_DERIVED s'')))
         | _ \<Rightarrow> (False, None, s))
      in if returned \<or> data_gspeed \<noteq> None then (returned, data_gspeed, s1)
         else (case get_data_pattern (TimeseriesFloat []) ''GPS/Spd'' s1 of
                 None \<Rightarrow> (False, None, s1)
               | Some data_try \<Rightarrow>
                   if get_max s1 data_try - get_min s1 data_try > 5
                   then (False, Some data_try, s1) else (False, None, s1)))"

text \<open>The body of the loop over the wind estimate. The results of \<^verbatim>\<open>get_data\<close> and
  \<^verbatim>\<open>get_data_at_time\<close> are not checked there; a variable that a failed call leaves
  uninitialised has the indeterminate value \<open>uninit\<close>.\<close>

definition glidevel_wind_step ::
  "real \<Rightarrow> nat \<Rightarrow> nat \<Rightarrow> nat \<Rightarrow> nat option \<Rightarrow> nat \<Rightarrow> nat \<Rightarrow> bool \<times> mavsystem \<Rightarrow> nat
     \<Rightarrow> bool \<times> mavsystem"
where
  "glidevel_wind_step uninit data_windE data_windN data_yaw data_gspeed data_winddir data_windspd
       rs k =
     (let (returned, s) = rs in
      if returned then (returned, s)
      else
      (let (t, wE) = (case series_get_data s data_windE k of
                        None \<Rightarrow> (uninit, uninit) | Some p \<Rightarrow> p);
           wN = at_time_or s data_windN t uninit;
           winddir = angle360 (180 / pi * atan2 (- wE) (- wN));
           s1 = add_elem data_winddir winddir t s;
           windspd = sqrt (wE\<^sup>2 + wN\<^sup>2);
           s2 = add_elem data_windspd windspd t s1;
           yaw = angle360 (at_time_or s2 data_yaw t uninit) * pi / 180;
           winddir_inv = angle360 (winddir - 180) * pi / 180;
           windrel = arccos (cos winddir_inv * cos yaw + sin winddir_inv * sin yaw);
           windhd = - cos windrel * windspd
       in case get_and_possibly_create_data (TimeseriesFloat []) ''glideperf/relative wind angle''
                 ''degree between yaw angle and wind direction'' s2 of
            (None, s3) \<Rightarrow> (True, s3)
          | (Some data_windrel, s3) \<Rightarrow>
              (case get_and_possibly_create_data (TimeseriesFloat []) ''glideperf/head wind''
                      ''same units as VWE and VWN'' s3 of
                 (None, s4) \<Rightarrow> (True, s4)
               | (Some data_windhd, s4) \<Rightarrow>
                   (let s5 = set_type data_windrel DATA_DERIVED s4;
                        s6 = set_type data_windhd DATA_DERIVED s5;
                        s7 = add_elem data_windrel (windrel * (180 / pi)) t s6;
                        s8 = add_elem data_windhd windhd t s7
                    in case data_gspeed of
                         None \<Rightarrow> (False, s8)
                       | Some gspeed \<Rightarrow>
                           (case get_and_possibly_create_data (TimeseriesFloat [])
                                   ''glideperf/airspeed estimate''
                                   ''same units as VWE and VWN'' s8 of
                              (None, s9) \<Rightarrow> (True, s9)
                            | (Some data_airspeedest, s9) \<Rightarrow>
                                (let s10 = set_type data_airspeedest DATA_DERIVED s9;
                                     airspeed = at_time_or s10 gspeed t 0 + windhd
                                 in (False, add_elem data_airspeedest airspeed t s10)))))))"

text \<open>The body of the loop over the sink rate: a sample enters the glide ratio when the
  sink rate is positive, the airspeed is above 5, and pitch, roll and longitudinal
  acceleration are below 20, 45 and 2 in absolute value.\<close>

definition glidevel_ratio_step ::
  "nat \<Rightarrow> nat \<Rightarrow> nat option \<Rightarrow> bool \<Rightarrow> nat option \<Rightarrow> nat \<Rightarrow> nat \<Rightarrow> nat \<Rightarrow> bool \<times> mavsystem
     \<Rightarrow> nat \<Rightarrow> bool \<times> mavsystem"
where
  "glidevel_ratio_step data_sink data_accx data_airspeed have_wind data_gspeed data_pitch
       data_roll data_glideratio rs k =
     (let (returned, s) = rs in
      if returned then (returned, s)
      else
      (case series_get_data s data_sink k of
         None \<Rightarrow> (False, s)
       | Some (t, sink) \<Rightarrow>
           if sink > 0 then
             (let accx = at_time_or s data_accx t 0;
                  airspeed_opt =
                    (case data_airspeed of
                       Some a \<Rightarrow> Some (at_time_or s a t 0)
                     | None \<Rightarrow>
                         if have_wind then
                           (case get_data_typed (TimeseriesFloat [])
                                   ''glideperf/airspeed estimate'' s of
                              None \<Rightarrow> None
                            | Some data_airspeedest \<Rightarrow> Some (at_time_or s data_airspeedest t 0))
                         else (case data_gspeed of
                                 None \<Rightarrow> Some 0
                               | Some g \<Rightarrow> Some (at_time_or s g t 0)))
              in case airspeed_opt of
                   None \<Rightarrow> (True, s)
                 | Some airspeed \<Rightarrow>
                     (let pitch = at_time_or s data_pitch t 0;
                          roll = at_time_or s data_roll t 0
                      in if airspeed > 5 \<and> \<bar>pitch\<bar> < 20 \<and> \<bar>roll\<bar> < 45 \<and> \<bar>accx\<bar> < 2
                         then (False, add_elem data_glideratio
                                        ((airspeed / sink) / cos (pi * \<bar>roll\<bar> / 180)) t s)
                         else (False, s)))
           else (False, s)))"

text \<open>The part of \<^verbatim>\<open>_postprocess_glideperf_vel\<close> that computes the glide ratio, entered when
  all inputs were found.\<close>

definition glidevel_compute ::
  "real \<Rightarrow> nat \<Rightarrow> nat \<Rightarrow> nat \<Rightarrow> nat \<Rightarrow> nat option \<Rightarrow> nat option
     \<Rightarrow> (nat \<times> nat \<times> nat) option \<Rightarrow> mavsystem \<Rightarrow> mavsystem"
where
  "glidevel_compute uninit data_roll data_pitch data_sink data_accx data_airspeed data_gspeed
       wind =
     DATA_ITEM_OR_RETURN (TimeseriesFloat []) ''glideperf/glide ratio'' ''ratio'' (\<lambda>data_glideratio s.
       let s1 = clear data_glideratio (set_type data_glideratio DATA_DERIVED s);
           (returned, s2) =
             (case wind of
                None \<Rightarrow> (False, s1)
              | Some (data_windE, data_windN, data_yaw) \<Rightarrow>
                  (case get_and_possibly_create_data (TimeseriesFloat [])
                          ''glideperf/wind direction''
                          ''degree, coming from (aeronautic convention)'' s1 of
                     (None, s') \<Rightarrow> (True, s')
                   | (Some data_winddir, s') \<Rightarrow>
                       (case get_and_possibly_create_data (TimeseriesFloat [])
                               ''glideperf/wind speed'' ''same units as VWE and VWN'' s' of
                          (None, s'') \<Rightarrow> (True, s'')
                        | (Some data_windspd, s'') \<Rightarrow>
                            (let s3 = set_type data_windspd DATA_DERIVED
                                        (set_type data_winddir DATA_DERIVED s'')
                             in foldl (glidevel_wind_step uninit data_windE data_windN data_yaw
                                         data_gspeed data_winddir data_windspd)
                                  (False, s3) [0 ..< series_size s3 data_windE]))));
           (returned', s4) =
             foldl (glidevel_ratio_step data_sink data_accx data_airspeed (wind \<noteq> None)
                      data_gspeed data_pitch data_roll data_glideratio)
               (returned, s2) [0 ..< series_size s2 data_sink]
       in if returned' then s4
          else DATA_ITEM_OR_RETURN (TimeseriesFloat []) ''glideperf/glide ratio 5sec avg'' ''ratio''
                 (\<lambda>data_glideratio5 s. moving_average data_glideratio data_glideratio5 5 s) s4)"

text \<open>\<^verbatim>\<open>MavSystem::_postprocess_glideperf_vel\<close>: the searches in the order of the source, then
  the computation when roll, pitch, sink rate, longitudinal acceleration and one of the
  speeds were found.\<close>

definition postprocess_glideperf_vel :: "real \<Rightarrow> mavsystem \<Rightarrow> mavsystem" where
  "postprocess_glideperf_vel uninit s =
     (let data_roll = get_data_pattern (TimeseriesFloat []) (rx_b @ ''[rR]oll'' @ rx_b) s;
          data_accx = get_data_pattern (TimeseriesFloat []) (rx_b @ ''AccX'' @ rx_b) s;
          data_pitch = get_data_pattern (TimeseriesFloat []) (rx_b @ ''[pP]itch'' @ rx_b) s;
          wind = (case (get_data_pattern (TimeseriesFloat []) (rx_b @ ''VWE'' @ rx_b) s,
                        get_data_pattern (TimeseriesFloat []) (rx_b @ ''VWN'' @ rx_b) s,
                        get_data_pattern (TimeseriesFloat []) (rx_b @ ''Yaw'' @ rx_b) s) of
                    (Some data_try1, Some data_try2, Some data_try3) \<Rightarrow>
                      Some (data_try1, data_try2, data_try3)
                  | _ \<Rightarrow> None);
          data_airspeed =
            (case get_data_pattern (TimeseriesFloat []) (rx_b @ ''TrueSpeed'' @ rx_b) s of
               None \<Rightarrow> None
             | Some data_try \<Rightarrow>
                 if get_max s data_try - get_min s data_try > 5 then Some data_try else None);
          (returned, data_gspeed, s1) = glidevel_groundspeed s
      in if returned then s1
         else
         (let data_sink =
                (case get_data_pattern (TimeseriesFloat []) (rx_b @ ''VD'' @ rx_b) s1 of
                   Some data_try \<Rightarrow> Some data_try
                 | None \<Rightarrow> get_data_pattern (TimeseriesFloat []) ''GPS/VZ'' s1)
          in case (data_roll, data_pitch, data_sink, data_accx) of
               (Some roll, Some pitch, Some sink, Some accx) \<Rightarrow>
                 if data_airspeed \<noteq> None \<or> data_gspeed \<noteq> None
                 then glidevel_compute uninit roll pitch sink accx data_airspeed data_gspeed
                        wind s1
                 else s1
             | _ \<Rightarrow> s1))"

subsection \<open>The pipeline\<close>

text \<open>\<^verbatim>\<open>MavSystem::postprocess\<close>. The parameters are the test for bad timestamps and the
  indeterminate value of the variables that the glide passes read uninitialised.\<close>

definition postprocess :: "(data \<Rightarrow> bool) \<Rightarrow> real \<Rightarrow> mavsystem \<Rightarrow> mavsystem" where
  "postprocess has_bad_timestamps uninit s =
     postprocess_glideperf_vel uninit
       (postprocess_glideperf_pos uninit
         (postprocess_powerstats
           (postprocess_flightbook
             (postprocess_bad_timing has_bad_timestamps s))))"

subsection \<open>Merging\<close>

text \<open>Modelled from the spec: \<^verbatim>\<open>Data::merge_in\<close> of a unit (section 4.2). It fails for a unit
  of another type. Otherwise it forms the union of the samples over time, and at an equal
  time the incoming value wins; a parameter takes the incoming values.\<close>

definition merge_samples :: "(real \<times> 'a) list \<Rightarrow> (real \<times> 'a) list \<Rightarrow> (real \<times> 'a) list" where
  "merge_samples mine incoming =
     foldl (\<lambda>acc (t, v). insort_key fst (t, v) (filter (\<lambda>(t', v'). t' \<noteq> t) acc)) mine incoming"

fun merge_payload :: "payload \<Rightarrow> payload \<Rightarrow> payload option" where
  "merge_payload (TimeseriesFloat xs) (TimeseriesFloat ys) = Some (TimeseriesFloat (merge_samples xs ys))"
| "merge_payload (TimeseriesDouble xs) (TimeseriesDouble ys) = Some (TimeseriesDouble (merge_samples xs ys))"
| "merge_payload (EventString xs) (EventString ys) = Some (EventString (merge_samples xs ys))"
| "merge_payload (ParamUInt xs) (ParamUInt ys) = Some (ParamUInt ys)"
| "merge_payload (ParamDouble xs) (ParamDouble ys) = Some (ParamDouble ys)"
| "merge_payload p q = None"

definition data_merge_in :: "data \<Rightarrow> data \<Rightarrow> bool \<times> data" where
  "data_merge_in mine other =
     (case merge_payload (payload mine) (payload other) of
        None \<Rightarrow> (False, mine)
      | Some p \<Rightarrow> (True, mine\<lparr>payload := p\<rparr>))"

text \<open>\<^verbatim>\<open>MavSystem::_add_data\<close>. The argument is the unit of the other system that the pointer
  refers to, or \<open>None\<close> for a null pointer.\<close>

definition add_data :: "data option \<Rightarrow> mavsystem \<Rightarrow> bool \<times> mavsystem" where
  "add_data src_opt s =
     (case src_opt of
        None \<Rightarrow> (False, s)
      | Some src \<Rightarrow>
          (let fullname = get_fullname src in
           case get_data fullname s of
             Some mydata \<Rightarrow>
               (case obj_at s mydata of
                  None \<Rightarrow> (False, s)
                | Some md \<Rightarrow>
                    if is_present md then
                      (let (ok, md') = data_merge_in md src
                       in (ok, obj_update mydata (\<lambda>d. md') s))
                    else
                      (let s1 = del_data mydata s;
                           (copiedData, s2) = new_data src s1
                       in (True, data_register_hierarchy fullname copiedData s2)))
           | None \<Rightarrow>
               (let (copiedData, s1) = new_data src s
                in (True, data_register_hierarchy fullname copiedData s1))))"

text \<open>\<^verbatim>\<open>MavSystem::merge_in\<close>: the loop over the flat map of the other system, then the
  pipeline and the absolute time when something was added. The function returns
  \<^verbatim>\<open>true\<close>.\<close>

definition merge_in_step :: "mavsystem \<Rightarrow> bool \<times> mavsystem \<Rightarrow> string \<times> nat \<Rightarrow> bool \<times> mavsystem" where
  "merge_in_step other as entry =
     (let (added, s) = as; (path, a) = entry;
          (ok, s') = add_data (obj_at other a) s
      in if \<not> ok then (added, s') else (True, s'))"

definition merge_in :: "(data \<Rightarrow> bool) \<Rightarrow> real \<Rightarrow> mavsystem \<Rightarrow> mavsystem \<Rightarrow> bool \<times> mavsystem" where
  "merge_in has_bad_timestamps uninit other s =
     (let (added, s1) = foldl (merge_in_step other) (False, s) (data_from_path other);
          s2 = (if added
                then determine_absolute_time (postprocess has_bad_timestamps uninit s1)
                else s1)
      in (True, s2))"

text \<open>The attempts of the loop of \<^verbatim>\<open>merge_in\<close>, one after the other: the result of
  \<^verbatim>\<open>_add_data\<close> for every entry of the flat map of the other system, and the system after
  the last of them.\<close>

fun add_all :: "mavsystem \<Rightarrow> (string \<times> nat) list \<Rightarrow> mavsystem \<Rightarrow> bool list \<times> mavsystem" where
  "add_all other [] s = ([], s)"
| "add_all other ((path, a) # entries) s =
     (let (ok, s1) = add_data (obj_at other a) s;
          (oks, s2) = add_all other entries s1
      in (ok # oks, s2))"

text \<open>A system that holds an event log at the path where \<open>example_sys\<close> holds a series.\<close>

definition mismatch_sys :: mavsystem where
  "mismatch_sys = MavSystem\<lparr>
       objs := [Some \<lparr> name = ''battery_voltage'', units = ''V'', dtype = DATA_RAW,
                       epoch_datastart = 0, parent = Some [''power''],
                       payload = EventString [(0, ''low'')] \<rparr>],
       data_from_path := [(''power/battery_voltage'', 0)],
       mav_data_groups := [(''power'', DataGroup ''power'' [] [(''battery_voltage'', 0)])] \<rparr>"

subsection \<open>A system with a position log\<close>

text \<open>The three position series of an estimator log, \<^verbatim>\<open>NKF1/PN\<close>, \<^verbatim>\<open>NKF1/PE\<close> and
  \<^verbatim>\<open>NKF1/PD\<close>, with two samples each: the vehicle moves 3 m north and 4 m east within one
  second.\<close>

definition position_unit :: "string \<Rightarrow> real \<Rightarrow> data" where
  "position_unit nm v = \<lparr> name = nm, units = ''m'', dtype = DATA_RAW, epoch_datastart = 0,
     parent = Some [''NKF1''], payload = TimeseriesFloat [(0, 0), (1, v)] \<rparr>"

definition glide_sys :: mavsystem where
  "glide_sys = MavSystem\<lparr>
       objs := [Some (position_unit ''PD'' 0), Some (position_unit ''PE'' 4),
                Some (position_unit ''PN'' 3)],
       data_from_path := [(''NKF1/PD'', 0), (''NKF1/PE'', 1), (''NKF1/PN'', 2)],
       mav_data_groups :=
         [(''NKF1'', DataGroup ''NKF1'' [] [(''PD'', 0), (''PE'', 1), (''PN'', 2)])] \<rparr>"

text \<open>The same system with the unit \<^verbatim>\<open>glideperf/cum. horz. dist.\<close> holding the given
  samples.\<close>

definition glide_sys_with :: "(real \<times> real) list \<Rightarrow> mavsystem" where
  "glide_sys_with hd_samples = MavSystem\<lparr>
       objs := [Some (position_unit ''PD'' 0), Some (position_unit ''PE'' 4),
                Some (position_unit ''PN'' 3),
                Some \<lparr> name = ''cum. horz. dist.'', units = ''m'', dtype = DATA_DERIVED,
                       epoch_datastart = 0, parent = Some [''glideperf''],
                       payload = TimeseriesFloat hd_samples \<rparr>],
       data_from_path := [(''NKF1/PD'', 0), (''NKF1/PE'', 1), (''NKF1/PN'', 2),
                          (''glideperf/cum. horz. dist.'', 3)],
       mav_data_groups :=
         [(''NKF1'', DataGroup ''NKF1'' [] [(''PD'', 0), (''PE'', 1), (''PN'', 2)]),
          (''glideperf'', DataGroup ''glideperf'' [] [(''cum. horz. dist.'', 3)])] \<rparr>"

section \<open>Properties\<close>

subsection \<open>Jump rejection of the relative clock\<close>



subsection \<open>Registration, lazy creation and appending\<close>

lemma map_find_map_assign:
  "map_find k (map_assign k' v m) = (if k = k' then Some v else map_find k m)"
  by (induction m) auto

lemma set_map_assign: "set (map_assign k v m) \<subseteq> insert (k, v) (set m)"
  by (induction m) (auto split: if_splits)

lemma snd_set_map_assign: "snd ` set (map_assign k v m) \<subseteq> insert v (snd ` set m)"
  using image_mono[OF set_map_assign[of k v m], of snd] by simp

lemma distinct_map_assign:
  "distinct (map snd m) \<Longrightarrow> v \<notin> snd ` set m \<Longrightarrow> distinct (map snd (map_assign k v m))"
proof (induction m)
  case Nil then show ?case by simp
next
  case (Cons x m)
  obtain k' v' where x: "x = (k', v')" by (cases x)
  have "v' \<notin> snd ` set (map_assign k v m)"
    using snd_set_map_assign[of k v m] Cons.prems by (auto simp: x)
  then show ?case using Cons by (auto simp: x)
qed

lemma map_find_Some_set: "map_find k m = Some v \<Longrightarrow> (k, v) \<in> set m"
  by (induction m) (auto split: if_splits)

lemma obj_at_register:
  "payload_at (data_register_hierarchy fullname item s) b = payload_at s b"
  by (auto simp: data_register_hierarchy_def Let_def payload_at_def obj_at_def obj_update_def
      nth_list_update split: option.splits)

lemma flat_register:
  "data_from_path (data_register_hierarchy fullname item s) = map_assign fullname item (data_from_path s)"
  by (auto simp: data_register_hierarchy_def Let_def obj_update_def split: option.splits)

lemma time_register: "time (data_register_hierarchy fullname item s) = time s"
  by (auto simp: data_register_hierarchy_def Let_def obj_update_def split: option.splits)

lemma length_objs_register:
  "length (objs (data_register_hierarchy fullname item s)) = length (objs s)"
  by (auto simp: data_register_hierarchy_def Let_def obj_update_def split: option.splits)

lemma same_kind_clear: "same_kind (clear_payload k) k"
  by (cases k) auto

lemma samples_clear: "samples (clear_payload k) = []"
  by (cases k) auto

lemma distinct_snd_inj:
  "distinct (map snd m) \<Longrightarrow> (k, v) \<in> set m \<Longrightarrow> (k', v) \<in> set m \<Longrightarrow> k = k'"
  by (induction m) (auto simp: image_iff)

lemma goc_old:
  assumes "map_find P (data_from_path s) = Some a" "payload_at s a = Some p" "same_kind p k"
  shows "get_and_possibly_create_data k P u s = (Some a, s)"
  using assms
  by (auto simp: get_and_possibly_create_data_def get_data_def get_data_typed_def payload_at_def
      split: option.splits)

lemma goc_new:
  assumes "map_find P (data_from_path s) = None"
  shows "\<exists>s'. get_and_possibly_create_data k P u s = (Some (length (objs s)), s')
      \<and> data_from_path s' = map_assign P (length (objs s)) (data_from_path s)
      \<and> length (objs s') = Suc (length (objs s))
      \<and> payload_at s' (length (objs s)) = Some (clear_payload k)
      \<and> (\<forall>b. b < length (objs s) \<longrightarrow> payload_at s' b = payload_at s b)
      \<and> time s' = time s"
  using assms
  by (simp add: get_and_possibly_create_data_def get_data_def new_data_def
      flat_register obj_at_register time_register length_objs_register)
     (simp add: payload_at_def obj_at_def nth_append)

lemma payload_at_Some_less: "payload_at s b = Some p \<Longrightarrow> b < length (objs s)"
  by (auto simp: payload_at_def obj_at_def split: if_splits)

lemma goc_ok:
  assumes wf: "wf_flat s" and ok: "unit_ok s k P"
  shows "\<exists>a s'. get_and_possibly_create_data k P u s = (Some a, s')
      \<and> map_find P (data_from_path s') = Some a
      \<and> (\<exists>p. payload_at s' a = Some p \<and> same_kind p k)
      \<and> (\<forall>Q. series s' Q = series s Q)
      \<and> (\<forall>Q k'. Q \<noteq> P \<longrightarrow> unit_ok s k' Q \<longrightarrow> unit_ok s' k' Q)
      \<and> (\<forall>Q b. map_find Q (data_from_path s) = Some b \<longrightarrow> map_find Q (data_from_path s') = Some b)
      \<and> (\<forall>b p. payload_at s b = Some p \<longrightarrow> payload_at s' b = Some p)
      \<and> wf_flat s' \<and> time s' = time s"
proof (cases "map_find P (data_from_path s)")
  case (Some a)
  then obtain p where p: "payload_at s a = Some p" "same_kind p k"
    using ok by (auto simp: unit_ok_def split: option.splits)
  from goc_old[OF Some p] show ?thesis using Some p wf by auto
next
  case None
  let ?a = "length (objs s)"
  from goc_new[OF None, of k u] obtain s' where s':
    "get_and_possibly_create_data k P u s = (Some ?a, s')"
    "data_from_path s' = map_assign P ?a (data_from_path s)"
    "length (objs s') = Suc ?a"
    "payload_at s' ?a = Some (clear_payload k)"
    "\<And>b. b < ?a \<Longrightarrow> payload_at s' b = payload_at s b"
    "time s' = time s" by blast
  have fresh: "?a \<notin> snd ` set (data_from_path s)"
    using wf by (auto simp: wf_flat_def)
  have old: "\<And>Q b. map_find Q (data_from_path s) = Some b \<Longrightarrow> b < ?a"
    using wf map_find_Some_set by (fastforce simp: wf_flat_def)
  have ser: "series s' Q = series s Q" for Q
  proof (cases "Q = P")
    case True
    then show ?thesis using None s' by (simp add: series_def map_find_map_assign samples_clear)
  next
    case False
    then show ?thesis using s' old
      by (auto simp: series_def map_find_map_assign split: option.splits)
  qed
  have uo: "unit_ok s' k' Q" if "Q \<noteq> P" "unit_ok s k' Q" for Q k'
    using that s' old by (auto simp: unit_ok_def map_find_map_assign split: option.splits)
  have "\<And>b. b \<in> snd ` set (data_from_path s') \<Longrightarrow> b < length (objs s')"
    using wf s'(2,3) snd_set_map_assign[of P ?a "data_from_path s"]
    unfolding wf_flat_def by fastforce
  then have wf': "wf_flat s'"
    using wf fresh s'(2) by (simp add: wf_flat_def distinct_map_assign)
  have mono: "map_find Q (data_from_path s') = Some b"
    if "map_find Q (data_from_path s) = Some b" for Q b
    using that None s'(2) by (auto simp: map_find_map_assign)
  have pl: "payload_at s' b = Some p" if "payload_at s b = Some p" for b p
    using that s'(5) payload_at_Some_less by auto
  show ?thesis
    using s'(1,4,6) ser uo wf' mono pl by (auto simp: s'(2) map_find_map_assign same_kind_clear)
qed

text \<open>The macro, for a path that is free or holds a series of the requested type.\<close>

lemma DATA_ITEM_OR_RETURN_series:
  assumes wf: "wf_flat s" and ok: "unit_ok s k P"
    and k: "k = TimeseriesFloat [] \<or> k = TimeseriesDouble []"
  shows "\<exists>a s'. (\<forall>body. DATA_ITEM_OR_RETURN k P u body s = body a s')
      \<and> has_series s' P a
      \<and> (\<forall>Q. series s' Q = series s Q)
      \<and> (\<forall>Q k'. Q \<noteq> P \<longrightarrow> unit_ok s k' Q \<longrightarrow> unit_ok s' k' Q)
      \<and> (\<forall>Q b. has_series s Q b \<longrightarrow> has_series s' Q b)
      \<and> wf_flat s' \<and> time s' = time s"
proof -
  from goc_ok[OF wf ok, of u] obtain a s' where g:
    "get_and_possibly_create_data k P u s = (Some a, s')"
    "map_find P (data_from_path s') = Some a"
    "\<exists>p. payload_at s' a = Some p \<and> same_kind p k"
    "\<forall>Q. series s' Q = series s Q"
    "\<forall>Q k'. Q \<noteq> P \<longrightarrow> unit_ok s k' Q \<longrightarrow> unit_ok s' k' Q"
    "\<forall>Q b. map_find Q (data_from_path s) = Some b \<longrightarrow> map_find Q (data_from_path s') = Some b"
    "\<forall>b p. payload_at s b = Some p \<longrightarrow> payload_at s' b = Some p"
    "wf_flat s'" "time s' = time s" by blast
  have 1: "\<forall>body. DATA_ITEM_OR_RETURN k P u body s = body a s'"
    by (simp add: DATA_ITEM_OR_RETURN_def g(1))
  have 2: "has_series s' P a"
    using g(2,3) k by (auto simp: has_series_def is_series_def)
  have 3: "has_series s' Q b" if "has_series s Q b" for Q b
    using that g(6,7) by (auto simp: has_series_def is_series_def split: option.splits)
  show ?thesis using 1 2 3 g(4,5,8,9) by blast
qed

lemma add_elem_series:
  assumes wf: "wf_flat s" and hs: "has_series s P a"
  shows "series (add_elem a v t s) Q = (if Q = P then series s P @ [(t, v)] else series s Q)"
    and "wf_flat (add_elem a v t s)" and "time (add_elem a v t s) = time s"
    and "has_series s Q' b \<Longrightarrow> has_series (add_elem a v t s) Q' b"
proof -
  from hs obtain p where p: "map_find P (data_from_path s) = Some a" "payload_at s a = Some p"
    "same_kind p (TimeseriesFloat []) \<or> same_kind p (TimeseriesDouble [])"
    by (auto simp: has_series_def is_series_def split: option.splits)
  then obtain d where d: "obj_at s a = Some d" "payload d = p"
    by (auto simp: payload_at_def)
  have a: "a < length (objs s)" using p(2) payload_at_Some_less by blast
  have flat: "data_from_path (add_elem a v t s) = data_from_path s"
    by (simp add: add_elem_def obj_update_def d)
  have len: "length (objs (add_elem a v t s)) = length (objs s)"
    by (simp add: add_elem_def obj_update_def d)
  have pa: "payload_at (add_elem a v t s) b =
      (if b = a then Some (add_elem_real v t p) else payload_at s b)" for b
    using a d by (auto simp: add_elem_def obj_update_def payload_at_def obj_at_def)
  have sm: "samples (add_elem_real v t p) = samples p @ [(t, v)]"
    using p(3) by (cases p) auto
  have sk: "same_kind (add_elem_real v t p) k = same_kind p k" for k
    by (cases p; cases k) auto
  show "series (add_elem a v t s) Q = (if Q = P then series s P @ [(t, v)] else series s Q)"
  proof (cases "Q = P")
    case True
    then show ?thesis by (simp add: series_def flat p pa sm)
  next
    case False
    have "b \<noteq> a" if "map_find Q (data_from_path s) = Some b" for b
      using distinct_snd_inj[of "data_from_path s" Q a P] wf that p(1) False
        map_find_Some_set[of Q "data_from_path s" b] map_find_Some_set[of P "data_from_path s" a]
      by (auto simp: wf_flat_def)
    then show ?thesis using False by (auto simp: series_def flat pa split: option.splits)
  qed
  show "wf_flat (add_elem a v t s)" using wf by (simp add: wf_flat_def flat len)
  show "time (add_elem a v t s) = time s" by (simp add: add_elem_def obj_update_def d)
  show "has_series s Q' b \<Longrightarrow> has_series (add_elem a v t s) Q' b"
    using p(2,3) by (auto simp: has_series_def is_series_def flat pa sk)
qed

lemma track_sysperf_effect:
  assumes wf: "wf_flat s"
    and u1: "unit_ok s (TimeseriesFloat []) ''computer/autopilot_load''"
    and u2: "unit_ok s (TimeseriesFloat []) ''power/battery_voltage''"
    and u3: "unit_ok s (TimeseriesFloat []) ''power/battery_current''"
  shows "series (track_sysperf load bat_V bat_A s) Q = series s Q @
     (if Q = ''computer/autopilot_load'' then [(time s, load)]
      else if Q = ''power/battery_current'' \<and> bat_A > 0 then [(time s, bat_A)]
      else if Q = ''power/battery_voltage'' \<and> bat_V > 0 then [(time s, bat_V)]
      else [])"
proof -
  from DATA_ITEM_OR_RETURN_series[OF wf u1, of "''%''"] obtain a1 s1 where 1:
    "\<And>body. DATA_ITEM_OR_RETURN (TimeseriesFloat []) ''computer/autopilot_load'' ''%'' body s = body a1 s1"
    "has_series s1 ''computer/autopilot_load'' a1" "\<And>Q. series s1 Q = series s Q"
    "\<And>Q k'. Q \<noteq> ''computer/autopilot_load'' \<Longrightarrow> unit_ok s k' Q \<Longrightarrow> unit_ok s1 k' Q"
    "wf_flat s1" "time s1 = time s" by auto
  from DATA_ITEM_OR_RETURN_series[OF 1(5) 1(4)[OF _ u2], of "''V''"] obtain a2 s2 where 2:
    "\<And>body. DATA_ITEM_OR_RETURN (TimeseriesFloat []) ''power/battery_voltage'' ''V'' body s1 = body a2 s2"
    "has_series s2 ''power/battery_voltage'' a2" "\<And>Q. series s2 Q = series s1 Q"
    "\<And>Q k'. Q \<noteq> ''power/battery_voltage'' \<Longrightarrow> unit_ok s1 k' Q \<Longrightarrow> unit_ok s2 k' Q"
    "\<And>Q b. has_series s1 Q b \<Longrightarrow> has_series s2 Q b"
    "wf_flat s2" "time s2 = time s1" by auto
  have u3': "unit_ok s2 (TimeseriesFloat []) ''power/battery_current''"
    using 1(4)[OF _ u3] 2(4) by simp
  from DATA_ITEM_OR_RETURN_series[OF 2(6) u3', of "''A''"] obtain a3 s3 where 3:
    "\<And>body. DATA_ITEM_OR_RETURN (TimeseriesFloat []) ''power/battery_current'' ''A'' body s2 = body a3 s3"
    "has_series s3 ''power/battery_current'' a3" "\<And>Q. series s3 Q = series s2 Q"
    "\<And>Q b. has_series s2 Q b \<Longrightarrow> has_series s3 Q b"
    "wf_flat s3" "time s3 = time s2" by auto
  have h1: "has_series s3 ''computer/autopilot_load'' a1" using 1(2) 2(5) 3(4) by blast
  have h2: "has_series s3 ''power/battery_voltage'' a2" using 2(2) 3(4) by blast
  note h3 = 3(2)
  define t1 where "t1 = add_elem a1 load (time s3) s3"
  define t2 where "t2 = (if bat_A > 0 then add_elem a3 bat_A (time t1) t1 else t1)"
  define t3 where "t3 = (if bat_V > 0 then add_elem a2 bat_V (time t2) t2 else t2)"
  have r: "track_sysperf load bat_V bat_A s = t3"
    by (simp add: track_sysperf_def 1(1) 2(1) 3(1) t1_def t2_def t3_def Let_def)
  have tm: "time s3 = time s" using 1(6) 2(7) 3(6) by simp
  note e1 = add_elem_series[OF 3(5) h1, where v=load and t="time s3", folded t1_def]
  have h3t1: "has_series t1 ''power/battery_current'' a3" using e1(4) h3 by blast
  have h2t1: "has_series t1 ''power/battery_voltage'' a2" using e1(4) h2 by blast
  note e2 = add_elem_series[OF e1(2) h3t1, where v=bat_A and t="time t1"]
  have s2: "series t2 Q = series t1 Q @ (if Q = ''power/battery_current'' \<and> bat_A > 0 then [(time s, bat_A)] else [])"
    using e2(1) e1(3) tm by (simp add: t2_def)
  have wf2: "wf_flat t2" using e2(2) e1(2) by (simp add: t2_def)
  have tm2: "time t2 = time s" using e2(3) e1(3) tm by (simp add: t2_def)
  have h2t2: "has_series t2 ''power/battery_voltage'' a2" using e2(4) h2t1 by (simp add: t2_def)
  note e3 = add_elem_series[OF wf2 h2t2, where v=bat_V and t="time t2"]
  have s3: "series t3 Q = series t2 Q @ (if Q = ''power/battery_voltage'' \<and> bat_V > 0 then [(time s, bat_V)] else [])"
    using e3(1) tm2 by (simp add: t3_def)
  have "\<And>Q. series s3 Q = series s Q" using 1(3) 2(3) 3(3) by simp
  then show ?thesis
    unfolding r s3 s2 e1(1) tm by simp
qed

lemma track_paths_effect:
  assumes wf: "wf_flat s"
    and u1: "unit_ok s (TimeseriesDouble []) ''airstate/lat''"
    and u2: "unit_ok s (TimeseriesDouble []) ''airstate/lon''"
    and u3: "unit_ok s (TimeseriesFloat []) ''airstate/alt GND''"
    and u4: "unit_ok s (TimeseriesFloat []) ''airstate/alt MSL''"
    and u5: "unit_ok s (TimeseriesFloat []) ''airstate/heading''"
  shows "series (track_paths lat lon alt_rel_m alt_msl_m heading_deg s) Q = series s Q @
     (if Q = ''airstate/lat'' then [(time s, lat)]
      else if Q = ''airstate/lon'' then [(time s, lon)]
      else if Q = ''airstate/alt GND'' then [(time s, alt_rel_m)]
      else if Q = ''airstate/alt MSL'' then [(time s, alt_msl_m)]
      else if Q = ''airstate/heading'' \<and> heading_deg \<le> 360 then [(time s, heading_deg)]
      else [])"
proof -
  from DATA_ITEM_OR_RETURN_series[OF wf u1, of "[]"] obtain a1 s1 where 1:
    "\<And>body. DATA_ITEM_OR_RETURN (TimeseriesDouble []) ''airstate/lat'' [] body s = body a1 s1"
    "has_series s1 ''airstate/lat'' a1" "\<And>Q. series s1 Q = series s Q"
    "\<And>Q k'. Q \<noteq> ''airstate/lat'' \<Longrightarrow> unit_ok s k' Q \<Longrightarrow> unit_ok s1 k' Q"
    "wf_flat s1" "time s1 = time s" by auto
  from DATA_ITEM_OR_RETURN_series[OF 1(5) 1(4)[OF _ u2], of "[]"] obtain a2 s2 where 2:
    "\<And>body. DATA_ITEM_OR_RETURN (TimeseriesDouble []) ''airstate/lon'' [] body s1 = body a2 s2"
    "has_series s2 ''airstate/lon'' a2" "\<And>Q. series s2 Q = series s1 Q"
    "\<And>Q k'. Q \<noteq> ''airstate/lon'' \<Longrightarrow> unit_ok s1 k' Q \<Longrightarrow> unit_ok s2 k' Q"
    "\<And>Q b. has_series s1 Q b \<Longrightarrow> has_series s2 Q b"
    "wf_flat s2" "time s2 = time s1" by auto
  have u3': "unit_ok s2 (TimeseriesFloat []) ''airstate/alt GND''"
    using 1(4)[OF _ u3] 2(4) by simp
  from DATA_ITEM_OR_RETURN_series[OF 2(6) u3', of "''m''"] obtain a3 s3 where 3:
    "\<And>body. DATA_ITEM_OR_RETURN (TimeseriesFloat []) ''airstate/alt GND'' ''m'' body s2 = body a3 s3"
    "has_series s3 ''airstate/alt GND'' a3" "\<And>Q. series s3 Q = series s2 Q"
    "\<And>Q k'. Q \<noteq> ''airstate/alt GND'' \<Longrightarrow> unit_ok s2 k' Q \<Longrightarrow> unit_ok s3 k' Q"
    "\<And>Q b. has_series s2 Q b \<Longrightarrow> has_series s3 Q b"
    "wf_flat s3" "time s3 = time s2" by auto
  have u4': "unit_ok s3 (TimeseriesFloat []) ''airstate/alt MSL''"
    using 1(4)[OF _ u4] 2(4) 3(4) by simp
  from DATA_ITEM_OR_RETURN_series[OF 3(6) u4', of "''m''"] obtain a4 s4 where 4:
    "\<And>body. DATA_ITEM_OR_RETURN (TimeseriesFloat []) ''airstate/alt MSL'' ''m'' body s3 = body a4 s4"
    "has_series s4 ''airstate/alt MSL'' a4" "\<And>Q. series s4 Q = series s3 Q"
    "\<And>Q k'. Q \<noteq> ''airstate/alt MSL'' \<Longrightarrow> unit_ok s3 k' Q \<Longrightarrow> unit_ok s4 k' Q"
    "\<And>Q b. has_series s3 Q b \<Longrightarrow> has_series s4 Q b"
    "wf_flat s4" "time s4 = time s3" by auto
  have u5': "unit_ok s4 (TimeseriesFloat []) ''airstate/heading''"
    using 1(4)[OF _ u5] 2(4) 3(4) 4(4) by simp
  from DATA_ITEM_OR_RETURN_series[OF 4(6) u5', of "''deg''"] obtain a5 s5 where 5:
    "\<And>body. DATA_ITEM_OR_RETURN (TimeseriesFloat []) ''airstate/heading'' ''deg'' body s4 = body a5 s5"
    "has_series s5 ''airstate/heading'' a5" "\<And>Q. series s5 Q = series s4 Q"
    "\<And>Q b. has_series s4 Q b \<Longrightarrow> has_series s5 Q b"
    "wf_flat s5" "time s5 = time s4" by auto
  have h1: "has_series s5 ''airstate/lat'' a1" using 1(2) 2(5) 3(5) 4(5) 5(4) by blast
  have h2: "has_series s5 ''airstate/lon'' a2" using 2(2) 3(5) 4(5) 5(4) by blast
  have h3: "has_series s5 ''airstate/alt GND'' a3" using 3(2) 4(5) 5(4) by blast
  have h4: "has_series s5 ''airstate/alt MSL'' a4" using 4(2) 5(4) by blast
  note h5 = 5(2)
  have tm: "time s5 = time s" using 1(6) 2(7) 3(7) 4(7) 5(6) by simp
  have ser: "\<And>Q. series s5 Q = series s Q" using 1(3) 2(3) 3(3) 4(3) 5(3) by simp
  define t1 where "t1 = add_elem a1 lat (time s5) s5"
  define t2 where "t2 = add_elem a2 lon (time t1) t1"
  define t3 where "t3 = add_elem a3 alt_rel_m (time t2) t2"
  define t4 where "t4 = add_elem a4 alt_msl_m (time t3) t3"
  define t5 where "t5 = (if heading_deg \<le> 360 then add_elem a5 heading_deg (time t4) t4 else t4)"
  have r: "track_paths lat lon alt_rel_m alt_msl_m heading_deg s = t5"
    by (simp add: track_paths_def 1(1) 2(1) 3(1) 4(1) 5(1) t1_def t2_def t3_def t4_def t5_def Let_def)
  note e1 = add_elem_series[OF 5(5) h1, where v=lat and t="time s5", folded t1_def]
  note e2 = add_elem_series[OF e1(2) e1(4)[OF h2], where v=lon and t="time t1", folded t2_def]
  note e3 = add_elem_series[OF e2(2) e2(4)[OF e1(4)[OF h3]], where v=alt_rel_m and t="time t2",
      folded t3_def]
  note e4 = add_elem_series[OF e3(2) e3(4)[OF e2(4)[OF e1(4)[OF h4]]],
      where v=alt_msl_m and t="time t3", folded t4_def]
  note e5 = add_elem_series[OF e4(2) e4(4)[OF e3(4)[OF e2(4)[OF e1(4)[OF h5]]]],
      where v=heading_deg and t="time t4"]
  have tms: "time t1 = time s" "time t2 = time s" "time t3 = time s" "time t4 = time s"
    using e1(3) e2(3) e3(3) e4(3) tm by simp_all
  have s5: "series t5 Q = series t4 Q @
      (if Q = ''airstate/heading'' \<and> heading_deg \<le> 360 then [(time s, heading_deg)] else [])"
    using e5(1) tms by (simp add: t5_def)
  show ?thesis
    unfolding r s5 e4(1) e3(1) e2(1) e1(1) tm tms ser by simp
qed

text \<open>
  Claim C10. Let the flat map be well formed and let each of the three paths be free or
  hold a float series. Then \<open>track_sysperf\<close> always appends the load sample to
  \<^verbatim>\<open>computer/autopilot_load\<close>; it appends the current sample to \<^verbatim>\<open>power/battery_current\<close>
  only when \<open>bat_A > 0\<close> and the voltage sample to \<^verbatim>\<open>power/battery_voltage\<close> only when
  \<open>bat_V > 0\<close>. A value that is zero or negative leaves its series as it was.
\<close>

theorem track_sysperf_positive_only:
  assumes "wf_flat s"
    and "unit_ok s (TimeseriesFloat []) ''computer/autopilot_load''"
    and "unit_ok s (TimeseriesFloat []) ''power/battery_voltage''"
    and "unit_ok s (TimeseriesFloat []) ''power/battery_current''"
  shows "series (track_sysperf load bat_V bat_A s) ''computer/autopilot_load''
           = series s ''computer/autopilot_load'' @ [(time s, load)]
       \<and> series (track_sysperf load bat_V bat_A s) ''power/battery_current''
           = series s ''power/battery_current'' @ (if bat_A > 0 then [(time s, bat_A)] else [])
       \<and> series (track_sysperf load bat_V bat_A s) ''power/battery_voltage''
           = series s ''power/battery_voltage'' @ (if bat_V > 0 then [(time s, bat_V)] else [])"
  by (simp add: track_sysperf_effect[OF assms])

text \<open>On a new system: a load of 50 is recorded, a voltage of 0 and a current of -1 are
  not.\<close>

theorem track_sysperf_positive_only_witness:
  "wf_flat MavSystem
   \<and> unit_ok MavSystem (TimeseriesFloat []) ''computer/autopilot_load''
   \<and> unit_ok MavSystem (TimeseriesFloat []) ''power/battery_voltage''
   \<and> unit_ok MavSystem (TimeseriesFloat []) ''power/battery_current''
   \<and> series (track_sysperf 50 0 (- 1) MavSystem) ''computer/autopilot_load'' = [(0, 50)]
   \<and> series (track_sysperf 50 0 (- 1) MavSystem) ''power/battery_current'' = []
   \<and> series (track_sysperf 50 0 (- 1) MavSystem) ''power/battery_voltage'' = []"
proof -
  have wf: "wf_flat MavSystem"
    by (simp add: wf_flat_def MavSystem_def defaults_def)
  have u: "unit_ok MavSystem k P" for k P
    by (simp add: unit_ok_def MavSystem_def defaults_def)
  have e: "series MavSystem P = []" "time MavSystem = 0" for P
    by (simp_all add: series_def MavSystem_def defaults_def)
  show ?thesis
    using track_sysperf_positive_only[OF wf u u u, of 50 0 "- 1"] wf u by (simp add: e)
qed

text \<open>
  Claim C8, as stated, fails: a heading below zero lies outside the interval from 0 to 360
  and is recorded all the same, because the code only compares with the upper bound.
\<close>

theorem track_paths_negative_heading_counterexample:
  "\<not> (0 \<le> (- 10 :: real) \<and> (- 10 :: real) \<le> 360)
   \<and> series (track_paths 0 0 0 0 (- 10) MavSystem) ''airstate/heading'' = [(0, - 10)]"
proof -
  have wf: "wf_flat MavSystem"
    by (simp add: wf_flat_def MavSystem_def defaults_def)
  have u: "unit_ok MavSystem k P" for k P
    by (simp add: unit_ok_def MavSystem_def defaults_def)
  have e: "series MavSystem P = []" "time MavSystem = 0" for P
    by (simp_all add: series_def MavSystem_def defaults_def)
  show ?thesis
    by (simp add: track_paths_effect[OF wf u u u u u] e)
qed

text \<open>
  Claim C8, amended. Let the flat map be well formed and let each of the five paths be
  free or hold a series of the type the function asks for. A heading above 360 is dropped:
  the heading series stays as it was, while latitude, longitude and both altitudes of the
  same call are appended. Every heading of at most 360, negative ones included, is
  appended.
\<close>

theorem track_paths_heading_upper_bound:
  fixes s :: mavsystem and lat lon alt_rel_m alt_msl_m heading_deg :: real
  assumes "wf_flat s"
    and "unit_ok s (TimeseriesDouble []) ''airstate/lat''"
    and "unit_ok s (TimeseriesDouble []) ''airstate/lon''"
    and "unit_ok s (TimeseriesFloat []) ''airstate/alt GND''"
    and "unit_ok s (TimeseriesFloat []) ''airstate/alt MSL''"
    and "unit_ok s (TimeseriesFloat []) ''airstate/heading''"
  defines "s' \<equiv> track_paths lat lon alt_rel_m alt_msl_m heading_deg s"
  shows "series s' ''airstate/heading''
           = series s ''airstate/heading'' @ (if heading_deg \<le> 360 then [(time s, heading_deg)] else [])
       \<and> series s' ''airstate/lat'' = series s ''airstate/lat'' @ [(time s, lat)]
       \<and> series s' ''airstate/lon'' = series s ''airstate/lon'' @ [(time s, lon)]
       \<and> series s' ''airstate/alt GND'' = series s ''airstate/alt GND'' @ [(time s, alt_rel_m)]
       \<and> series s' ''airstate/alt MSL'' = series s ''airstate/alt MSL'' @ [(time s, alt_msl_m)]"
  unfolding s'_def by (simp add: track_paths_effect[OF assms(1-6)])

text \<open>On a new system: with a heading of 400 the position is recorded and the heading is
  not.\<close>

theorem track_paths_heading_upper_bound_witness:
  "wf_flat MavSystem
   \<and> unit_ok MavSystem (TimeseriesDouble []) ''airstate/lat''
   \<and> unit_ok MavSystem (TimeseriesDouble []) ''airstate/lon''
   \<and> unit_ok MavSystem (TimeseriesFloat []) ''airstate/alt GND''
   \<and> unit_ok MavSystem (TimeseriesFloat []) ''airstate/alt MSL''
   \<and> unit_ok MavSystem (TimeseriesFloat []) ''airstate/heading''
   \<and> series (track_paths 48 11 30 500 400 MavSystem) ''airstate/heading'' = []
   \<and> series (track_paths 48 11 30 500 400 MavSystem) ''airstate/lat'' = [(0, 48)]
   \<and> series (track_paths 48 11 30 500 400 MavSystem) ''airstate/alt GND'' = [(0, 30)]"
proof -
  have wf: "wf_flat MavSystem"
    by (simp add: wf_flat_def MavSystem_def defaults_def)
  have u: "unit_ok MavSystem k P" for k P
    by (simp add: unit_ok_def MavSystem_def defaults_def)
  have e: "series MavSystem P = []" "time MavSystem = 0" for P
    by (simp_all add: series_def MavSystem_def defaults_def)
  show ?thesis
    using track_paths_heading_upper_bound[OF wf u u u u u, of 48 11 30 500 400] wf u
    by (simp add: e)
qed

subsection \<open>The absolute time offset\<close>















subsection \<open>The active time span\<close>















subsection \<open>The store seen by path\<close>

lemma points_to_unit_of: "points_to s P a \<Longrightarrow> unit_of s P = obj_at s a"
  by (simp add: points_to_def unit_of_def)

lemma points_to_inj:
  assumes "wf_flat s" "points_to s P a" "points_to s Q a"
  shows "P = Q"
  using assms distinct_snd_inj[of "data_from_path s" P a Q]
    map_find_Some_set[of P "data_from_path s" a] map_find_Some_set[of Q "data_from_path s" a]
  by (auto simp: wf_flat_def points_to_def)

lemma obj_at_obj_update:
  "obj_at (obj_update a f s) b = (if b = a then map_option f (obj_at s b) else obj_at s b)"
  by (auto simp: obj_update_def obj_at_def split: option.splits)

lemma obj_update_fields:
  "data_from_path (obj_update a f s) = data_from_path s"
  "length (objs (obj_update a f s)) = length (objs s)"
  "time (obj_update a f s) = time s"
  "mav_data_groups (obj_update a f s) = mav_data_groups s"
  by (auto simp: obj_update_def split: option.splits)

lemma wf_flat_obj_update: "wf_flat (obj_update a f s) = wf_flat s"
  by (simp add: wf_flat_def obj_update_fields)

lemma points_to_obj_update: "points_to (obj_update a f s) Q b = points_to s Q b"
  by (auto simp: points_to_def obj_update_fields obj_at_obj_update)

lemma unit_of_obj_update:
  assumes wf: "wf_flat s" and pt: "points_to s P a"
  shows "unit_of (obj_update a f s) = (unit_of s)(P := map_option f (unit_of s P))"
proof
  fix Q
  show "unit_of (obj_update a f s) Q = ((unit_of s)(P := map_option f (unit_of s P))) Q"
  proof (cases "Q = P")
    case True
    then show ?thesis using pt
      by (simp add: unit_of_def obj_update_fields obj_at_obj_update points_to_def)
  next
    case False
    have "b \<noteq> a" if "map_find Q (data_from_path s) = Some b" for b
      using points_to_inj[OF wf pt, of Q] that False pt by (auto simp: points_to_def)
    then show ?thesis using False
      by (auto simp: unit_of_def obj_update_fields obj_at_obj_update split: option.splits)
  qed
qed

lemma get_data_typed_points_to:
  "get_data_typed k P s = Some a \<longleftrightarrow>
     points_to s P a \<and> (\<exists>d. obj_at s a = Some d \<and> same_kind (payload d) k)"
  by (auto simp: get_data_typed_def get_data_def points_to_def split: option.splits)

lemma get_data_typed_unit_of:
  "get_data_typed k P s = None \<longleftrightarrow>
     (case unit_of s P of None \<Rightarrow> True | Some d \<Rightarrow> \<not> same_kind (payload d) k)"
  by (auto simp: get_data_typed_def get_data_def unit_of_def split: option.splits)

lemma unit_ok_unit_of:
  "unit_ok s k P \<longleftrightarrow>
     (map_find P (data_from_path s) = None \<or> (\<exists>d. unit_of s P = Some d \<and> same_kind (payload d) k))"
  by (auto simp: unit_ok_def unit_of_def payload_at_def split: option.splits)

lemma obj_at_register_full:
  "obj_at (data_register_hierarchy fullname item s) b =
     (if b = item \<and> butlast (string_split (string_trim fullname) CHR ''/'') \<noteq> []
      then map_option (\<lambda>d. d\<lparr>parent := Some (butlast (string_split (string_trim fullname) CHR ''/''))\<rparr>)
             (obj_at s b)
      else obj_at s b)"
  by (auto simp: data_register_hierarchy_def Let_def obj_at_def obj_update_def split: option.splits)

lemma goc_view:
  assumes wf: "wf_flat s" and ok: "unit_ok s k P"
  shows "\<exists>a s'. get_and_possibly_create_data k P u s = (Some a, s')
      \<and> points_to s' P a \<and> wf_flat s' \<and> time s' = time s
      \<and> unit_of s' = (unit_of s)(P := Some (case unit_of s P of None \<Rightarrow> fresh_unit k P u | Some d \<Rightarrow> d))
      \<and> (\<forall>Q b. points_to s Q b \<longrightarrow> points_to s' Q b)
      \<and> (\<forall>Q k'. Q \<noteq> P \<longrightarrow> unit_ok s k' Q \<longrightarrow> unit_ok s' k' Q)
      \<and> (\<exists>d. obj_at s' a = Some d \<and> same_kind (payload d) k)
      \<and> (\<forall>b d. obj_at s b = Some d \<longrightarrow> obj_at s' b = Some d)"
proof (cases "map_find P (data_from_path s)")
  case (Some a)
  then obtain d where d: "unit_of s P = Some d" "same_kind (payload d) k"
    using ok by (auto simp: unit_ok_unit_of)
  then have o: "obj_at s a = Some d" using Some by (simp add: unit_of_def)
  have "get_and_possibly_create_data k P u s = (Some a, s)"
    using Some o d(2)
    by (simp add: get_and_possibly_create_data_def get_data_def get_data_typed_def)
  moreover have "points_to s P a" using Some o by (simp add: points_to_def)
  moreover have "unit_of s = (unit_of s)(P := Some d)" using d(1) by auto
  ultimately show ?thesis using wf d o by auto
next
  case None
  let ?a = "length (objs s)"
  let ?nd = "\<lparr> name = last (string_split P CHR ''/''), units = u, dtype = DATA_RAW,
       epoch_datastart = 0, parent = None, payload = clear_payload k \<rparr>"
  let ?s1 = "s\<lparr>objs := objs s @ [Some ?nd]\<rparr>"
  let ?s' = "data_register_hierarchy P ?a ?s1"
  have g: "get_and_possibly_create_data k P u s = (Some ?a, ?s')"
    using None by (simp add: get_and_possibly_create_data_def get_data_def new_data_def)
  have flat: "data_from_path ?s' = map_assign P ?a (data_from_path s)"
    by (simp add: flat_register)
  have len: "length (objs ?s') = Suc ?a" by (simp add: length_objs_register)
  have o1: "obj_at ?s1 b = (if b = ?a then Some ?nd else obj_at s b)" for b
    by (auto simp: obj_at_def nth_append)
  have onew: "obj_at ?s' ?a = Some (fresh_unit k P u)"
    by (simp add: obj_at_register_full o1 fresh_unit_def Let_def)
  have oold: "obj_at ?s' b = obj_at s b" if "b \<noteq> ?a" for b
    using that by (simp add: obj_at_register_full o1)
  have fresh: "?a \<notin> snd ` set (data_from_path s)"
    using wf by (auto simp: wf_flat_def)
  have old: "\<And>Q b. map_find Q (data_from_path s) = Some b \<Longrightarrow> b \<noteq> ?a"
    using fresh map_find_Some_set by (fastforce simp: image_iff)
  have "\<And>b. b \<in> snd ` set (data_from_path ?s') \<Longrightarrow> b < length (objs ?s')"
    using wf snd_set_map_assign[of P ?a "data_from_path s"]
    unfolding wf_flat_def flat len by fastforce
  then have wf': "wf_flat ?s'"
    using wf fresh by (simp add: wf_flat_def flat distinct_map_assign del: length_objs_register)
  have pt: "points_to ?s' P ?a" by (simp add: points_to_def flat map_find_map_assign onew)
  have mono: "points_to ?s' Q b" if "points_to s Q b" for Q b
    using that None old[of Q b] oold[of b]
    by (auto simp: points_to_def flat map_find_map_assign)
  have view: "unit_of ?s' = (unit_of s)(P := Some (case unit_of s P of None \<Rightarrow> fresh_unit k P u | Some d \<Rightarrow> d))"
  proof
    fix Q
    have uP: "unit_of s P = None" using None by (simp add: unit_of_def)
    show "unit_of ?s' Q = ((unit_of s)(P := Some (case unit_of s P of None \<Rightarrow> fresh_unit k P u | Some d \<Rightarrow> d))) Q"
    proof (cases "Q = P")
      case True
      then show ?thesis using uP onew by (simp add: unit_of_def flat map_find_map_assign)
    next
      case False
      then show ?thesis using old[of Q] oold
        by (auto simp: unit_of_def flat map_find_map_assign split: option.splits)
    qed
  qed
  have tm: "time ?s' = time s" by (simp add: time_register)
  have uo: "unit_ok ?s' k' Q" if "Q \<noteq> P" "unit_ok s k' Q" for Q k'
    using that old[of Q] oold
    by (auto simp: unit_ok_def payload_at_def flat map_find_map_assign split: option.splits)
  have kd: "\<exists>d. obj_at ?s' ?a = Some d \<and> same_kind (payload d) k"
    by (simp add: onew fresh_unit_def same_kind_clear)
  have keep: "obj_at ?s' b = Some d" if "obj_at s b = Some d" for b d
    using that oold[of b] by (cases "b = ?a") (auto simp: obj_at_def)
  show ?thesis using g pt wf' tm view mono uo kd keep by blast
qed

lemma DATA_ITEM_OR_RETURN_view:
  assumes wf: "wf_flat s" and ok: "unit_ok s k P"
  shows "\<exists>a s'. (\<forall>body. DATA_ITEM_OR_RETURN k P u body s = body a s')
      \<and> points_to s' P a \<and> wf_flat s' \<and> time s' = time s
      \<and> unit_of s' = (unit_of s)(P := Some (case unit_of s P of None \<Rightarrow> fresh_unit k P u | Some d \<Rightarrow> d))
      \<and> (\<forall>Q b. points_to s Q b \<longrightarrow> points_to s' Q b)
      \<and> (\<forall>Q k'. Q \<noteq> P \<longrightarrow> unit_ok s k' Q \<longrightarrow> unit_ok s' k' Q)
      \<and> (\<exists>d. obj_at s' a = Some d \<and> same_kind (payload d) k)
      \<and> (\<forall>b d. obj_at s b = Some d \<longrightarrow> obj_at s' b = Some d)"
proof -
  from goc_view[OF wf ok, of u] obtain a s' where g:
    "get_and_possibly_create_data k P u s = (Some a, s')"
    "points_to s' P a" "wf_flat s'" "time s' = time s"
    "unit_of s' = (unit_of s)(P := Some (case unit_of s P of None \<Rightarrow> fresh_unit k P u | Some d \<Rightarrow> d))"
    "\<forall>Q b. points_to s Q b \<longrightarrow> points_to s' Q b"
    "\<forall>Q k'. Q \<noteq> P \<longrightarrow> unit_ok s k' Q \<longrightarrow> unit_ok s' k' Q"
    "\<exists>d. obj_at s' a = Some d \<and> same_kind (payload d) k"
    "\<forall>b d. obj_at s b = Some d \<longrightarrow> obj_at s' b = Some d" by blast
  have "\<forall>body. DATA_ITEM_OR_RETURN k P u body s = body a s'"
    by (simp add: DATA_ITEM_OR_RETURN_def g(1))
  then show ?thesis using g(2-9) by blast
qed

lemma item_made_ex:
  assumes wf: "wf_flat s" and ok: "unit_ok s k P"
  shows "\<exists>a s' d. item_made s k P u a s' d"
proof -
  from DATA_ITEM_OR_RETURN_view[OF wf ok, of u] obtain a s' where
    *: "(\<forall>body. DATA_ITEM_OR_RETURN k P u body s = body a s')
      \<and> points_to s' P a \<and> wf_flat s' \<and> time s' = time s
      \<and> unit_of s' = (unit_of s)(P := Some (case unit_of s P of None \<Rightarrow> fresh_unit k P u | Some d \<Rightarrow> d))
      \<and> (\<forall>Q b. points_to s Q b \<longrightarrow> points_to s' Q b)
      \<and> (\<forall>Q k'. Q \<noteq> P \<longrightarrow> unit_ok s k' Q \<longrightarrow> unit_ok s' k' Q)
      \<and> (\<exists>d. obj_at s' a = Some d \<and> same_kind (payload d) k)
      \<and> (\<forall>b d. obj_at s b = Some d \<longrightarrow> obj_at s' b = Some d)"
    by (elim exE)
  then obtain d where d: "obj_at s' a = Some d" "same_kind (payload d) k"
    by (elim conjE exE)
  have "item_made s k P u a s' d"
    unfolding item_made_def
    by (intro conjI; (rule d)?; (use * in \<open>elim conjE\<close>)?; assumption?)
  then show ?thesis by (intro exI)
qed

lemma item_madeD:
  assumes "item_made s k P u a s' d"
  shows "DATA_ITEM_OR_RETURN k P u body s = body a s'"
    and "points_to s' P a" and "wf_flat s'" and "time s' = time s"
    and "points_to s Q b \<Longrightarrow> points_to s' Q b"
    and "Q \<noteq> P \<Longrightarrow> unit_ok s k' Q \<Longrightarrow> unit_ok s' k' Q"
    and "obj_at s' a = Some d" and "same_kind (payload d) k"
    and "obj_at s b = Some d' \<Longrightarrow> obj_at s' b = Some d'"
    and "unit_of s' = (unit_of s)(P := Some (case unit_of s P of None \<Rightarrow> fresh_unit k P u
                                            | Some d0 \<Rightarrow> d0))"
  using assms unfolding item_made_def by simp_all

lemma unit_of_points_to:
  "unit_of s P = Some d \<Longrightarrow> \<exists>a. points_to s P a \<and> obj_at s a = Some d"
  by (auto simp: unit_of_def points_to_def split: option.splits)

lemma payload_of_points_to:
  "points_to s P a \<Longrightarrow> payload_of s P = map_option payload (obj_at s a)"
  by (simp add: payload_of_def points_to_unit_of)

lemma points_to_flat_eq:
  assumes "data_from_path s' = data_from_path s" "\<And>b. (obj_at s' b = None) = (obj_at s b = None)"
  shows "points_to s' P a = points_to s P a"
  using assms by (simp add: points_to_def)

lemma points_to_neq:
  "wf_flat s \<Longrightarrow> points_to s P a \<Longrightarrow> points_to s Q b \<Longrightarrow> P \<noteq> Q \<Longrightarrow> a \<noteq> b"
  using points_to_inj by blast

lemma float_series_at_Some:
  "obj_at s a = Some d \<Longrightarrow> payload d = TimeseriesFloat xs \<Longrightarrow> float_series_at s a = xs"
  by (simp add: float_series_at_def)

subsection \<open>The flight book\<close>

lemma unat_word_succ_32:
  fixes n :: "32 word"
  assumes "unat n + 1 < 2 ^ 32"
  shows "unat (n + 1) = unat n + 1" "n + 1 \<noteq> 0"
proof -
  show "unat (n + 1) = unat n + 1"
    using assms by (simp add: unat_word_ariths)
  then show "n + 1 \<noteq> 0" by (metis Suc_eq_plus1 nat.simps(3) unat_0)
qed

lemma flightbook_value_loop:
  assumes "unat (nflights v0) + length alt < 2 ^ 32"
  shows "foldl (flightbook_value_step thr) (v0, ev0) alt =
     (let ev = edge_events (flying v0) (flying_flags alt thr) in
      (\<lparr> flying = (if flying_flags alt thr = [] then flying v0
                    else snd (last (flying_flags alt thr))),
         t_takeoff = last_event_time ''takeoff'' (t_takeoff v0) ev,
         t_first_takeoff = (if nflights v0 = 0 then first_event_time ''takeoff'' (t_first_takeoff v0) ev
                            else t_first_takeoff v0),
         t_last_landing = last_event_time ''landing'' (t_last_landing v0) ev,
         nflights = nflights v0 + of_nat (count_takeoffs ev),
         flighttime = flighttime v0 + flight_time_from (t_takeoff v0) ev \<rparr>,
       ev0 @ ev))"
  using assms
proof (induction alt arbitrary: v0 ev0)
  case Nil
  then show ?case by (simp add: flying_flags_def count_takeoffs_def)
next
  case (Cons x alt)
  obtain t a where x: "x = (t, a)" by (cases x)
  show ?case
  proof (cases "interpolate thr t")
    case None
    have ff: "flying_flags (x # alt) thr = flying_flags alt thr"
      by (simp add: flying_flags_def x None)
    have st: "flightbook_value_step thr (v0, ev0) x = (v0, ev0)"
      by (simp add: flightbook_value_step_def x None)
    have "unat (nflights v0) + length alt < 2 ^ 32" using Cons.prems by simp
    from Cons.IH[OF this, of ev0] show ?thesis by (simp add: st ff)
  next
    case (Some throttle)
    let ?f = "a > 1 \<and> throttle > 20"
    have ff: "flying_flags (x # alt) thr = (t, ?f) # flying_flags alt thr"
      by (simp add: flying_flags_def x Some)
    consider (takeoff) "?f" "\<not> flying v0" | (landing) "\<not> ?f" "flying v0"
      | (same) "?f = flying v0" by blast
    then show ?thesis
    proof cases
      case takeoff
      let ?v = "v0\<lparr>flying := True, nflights := nflights v0 + 1,
                    t_first_takeoff := (if nflights v0 + 1 = 1 then t else t_first_takeoff v0),
                    t_takeoff := t\<rparr>"
      have fl: "(a > 1 \<and> throttle > 20) = True" "flying v0 = False" using takeoff by simp_all
      have st: "flightbook_value_step thr (v0, ev0) x = (?v, ev0 @ [(t, ''takeoff'')])"
        using takeoff by (simp add: flightbook_value_step_def x Some Let_def)
      have nz: "unat (nflights v0 + 1) = unat (nflights v0) + 1" "nflights v0 + 1 \<noteq> 0"
        using unat_word_succ_32[of "nflights v0"] Cons.prems by simp_all
      then have b: "unat (nflights ?v) + length alt < 2 ^ 32" using Cons.prems by simp
      have "foldl (flightbook_value_step thr) (v0, ev0) (x # alt)
          = foldl (flightbook_value_step thr) (?v, ev0 @ [(t, ''takeoff'')]) alt"
        by (simp add: st)
      also note Cons.IH[OF b, of "ev0 @ [(t, ''takeoff'')]"]
      finally show ?thesis
        using nz(2) by (simp add: ff fl Let_def count_takeoffs_def add.assoc)
    next
      case landing
      let ?v = "v0\<lparr>flying := False, t_last_landing := t,
                flighttime := flighttime v0 + (t - t_takeoff v0)\<rparr>"
      have fl: "(a > 1 \<and> throttle > 20) = False" "flying v0 = True" using landing by simp_all
      have st: "flightbook_value_step thr (v0, ev0) x = (?v, ev0 @ [(t, ''landing'')])"
        using landing by (simp add: flightbook_value_step_def x Some Let_def)
      have b: "unat (nflights ?v) + length alt < 2 ^ 32" using Cons.prems by simp
      have "foldl (flightbook_value_step thr) (v0, ev0) (x # alt)
          = foldl (flightbook_value_step thr) (?v, ev0 @ [(t, ''landing'')]) alt"
        by (simp add: st)
      also note Cons.IH[OF b, of "ev0 @ [(t, ''landing'')]"]
      finally show ?thesis
        by (simp add: ff fl Let_def count_takeoffs_def add.assoc)
    next
      case same
      have fl: "(a > 1 \<and> throttle > 20) = flying v0" using same by simp
      have st: "flightbook_value_step thr (v0, ev0) x = (v0, ev0)"
        using same by (auto simp: flightbook_value_step_def x Some Let_def)
      have b: "unat (nflights v0) + length alt < 2 ^ 32" using Cons.prems by simp
      have "foldl (flightbook_value_step thr) (v0, ev0) (x # alt)
          = foldl (flightbook_value_step thr) (v0, ev0) alt"
        by (simp add: st)
      also note Cons.IH[OF b, of ev0]
      finally show ?thesis
        by (simp add: ff fl Let_def)
    qed
  qed
qed

lemma obj_update_obj_update:
  "obj_update a f (obj_update a g s) = obj_update a (f \<circ> g) s"
  by (cases "obj_at s a") (auto simp: obj_update_def obj_at_def)

lemma obj_update_id:
  assumes "\<And>d. obj_at s a = Some d \<Longrightarrow> f d = d"
  shows "obj_update a f s = s"
proof (cases "obj_at s a")
  case None then show ?thesis by (simp add: obj_update_def)
next
  case (Some d)
  then have "(objs s)[a := Some d] = objs s"
    by (auto simp: obj_at_def list_update_same_conv split: if_splits)
  then show ?thesis using Some assms[OF Some] by (simp add: obj_update_def)
qed

lemma float_series_at_obj_update:
  assumes "\<And>d. obj_at s a = Some d \<Longrightarrow> float_samples (payload (f d)) = float_samples (payload d)"
  shows "float_series_at (obj_update a f s) b = float_series_at s b"
  using assms by (auto simp: float_series_at_def obj_at_obj_update split: option.splits)

lemma flightbook_heap_loop:
  assumes de: "obj_at s a_evt = Some de" "payload de = EventString ev0"
    and n: "n \<le> length (float_series_at s a_alt)"
  shows "foldl (flightbook_step a_alt a_thr a_evt) (v0, s) [0..<n] =
     (case foldl (flightbook_value_step (float_series_at s a_thr)) (v0, ev0)
             (take n (float_series_at s a_alt)) of
        (v, ev) \<Rightarrow> (v, obj_update a_evt (\<lambda>d. d\<lparr>payload := EventString ev\<rparr>) s))"
  using n
proof (induction n)
  case 0
  have "obj_update a_evt (\<lambda>d. d\<lparr>payload := EventString ev0\<rparr>) s = s"
    by (rule obj_update_id) (use de in auto)
  then show ?case by simp
next
  case (Suc n)
  let ?alt = "float_series_at s a_alt" and ?thr = "float_series_at s a_thr"
  let ?upd = "\<lambda>ev. obj_update a_evt (\<lambda>d. d\<lparr>payload := EventString ev\<rparr>) s"
  obtain v ev where r: "foldl (flightbook_value_step ?thr) (v0, ev0) (take n ?alt) = (v, ev)"
    by (cases "foldl (flightbook_value_step ?thr) (v0, ev0) (take n ?alt)")
  have n: "n < length ?alt" using Suc.prems by simp
  have ih: "foldl (flightbook_step a_alt a_thr a_evt) (v0, s) [0..<n] = (v, ?upd ev)"
    using Suc.IH r n by simp
  have fs: "float_series_at (?upd ev) b = float_series_at s b" for b
    by (rule float_series_at_obj_update) (use de in auto)
  have add: "event_add_elem a_evt x t (?upd ev) = ?upd (ev @ [(t, x)])" for x t
    by (simp add: event_add_elem_def obj_update_obj_update comp_def)
  obtain t a where x: "?alt ! n = (t, a)" by (cases "?alt ! n")
  have step: "flightbook_step a_alt a_thr a_evt (v, ?upd ev) n =
      (case flightbook_value_step ?thr (v, ev) (?alt ! n) of (v', ev') \<Rightarrow> (v', ?upd ev'))"
    using n
    by (simp add: flightbook_step_def flightbook_value_step_def series_get_data_def
        get_data_at_time_def fs add x Let_def split: option.splits)
  show ?case
    by (simp add: ih step r take_Suc_conv_app_nth[OF n])
qed

lemma clear_payload_kind:
  "same_kind p (EventString []) \<Longrightarrow> clear_payload p = EventString []"
  "same_kind p (ParamUInt []) \<Longrightarrow> clear_payload p = ParamUInt []"
  "same_kind p (ParamDouble []) \<Longrightarrow> clear_payload p = ParamDouble []"
  "same_kind p (TimeseriesFloat []) \<Longrightarrow> clear_payload p = TimeseriesFloat []"
  by (cases p; simp)+

lemma flightbook_body_objs:
  fixes ep :: "64 word"
  assumes dist: "distinct [e1, e2, e3, e4, e5]"
    and io: "a_alt \<notin> {e1, e2, e3, e4, e5}" "a_thr \<notin> {e1, e2, e3, e4, e5}"
    and o1: "obj_at s e1 = Some d1" "same_kind (payload d1) (EventString [])"
    and o2: "obj_at s e2 = Some d2" "same_kind (payload d2) (ParamUInt [])"
    and o3: "obj_at s e3 = Some d3" "same_kind (payload d3) (ParamDouble [])"
    and o4: "obj_at s e4 = Some d4" "same_kind (payload d4) (ParamDouble [])"
    and o5: "obj_at s e5 = Some d5" "same_kind (payload d5) (ParamDouble [])"
    and alt: "float_series_at s a_alt = alt" and thr: "float_series_at s a_thr = thr"
    and len: "length alt < 2 ^ 32"
  defines "s' \<equiv> flightbook_body a_alt a_thr ep e1 e2 e3 e4 e5 s"
  defines "ev \<equiv> edge_events False (flying_flags alt thr)"
  shows "map_option payload (obj_at s' e1) = Some (EventString ev)"
    and "map_option payload (obj_at s' e2) = Some (ParamUInt [of_nat (count_takeoffs ev)])"
    and "map_option payload (obj_at s' e3) = Some (ParamDouble [flight_time_from 0 ev])"
    and "map_option payload (obj_at s' e4) = Some (ParamDouble [first_event_time ''takeoff'' 0 ev])"
    and "map_option payload (obj_at s' e5) = Some (ParamDouble [last_event_time ''landing'' 0 ev])"
    and "data_from_path s' = data_from_path s"
    and "\<And>b. b \<notin> {e1, e2, e3, e4, e5} \<Longrightarrow> obj_at s' b = obj_at s b"
    and "\<And>b. (obj_at s' b = None) = (obj_at s b = None)"
proof -
  let ?outs = "[e1, e2, e3, e4, e5]"
  define s1 where "s1 = foldl (\<lambda>s a. set_type a DATA_DERIVED s) s ?outs"
  define s2 where "s2 = foldl (\<lambda>s a. clear a s) s1 ?outs"
  define s3 where "s3 = foldl (\<lambda>s a. set_epoch_datastart a ep s) s2 ?outs"
  define pre :: "data \<Rightarrow> data" where "pre = (\<lambda>d. d\<lparr>dtype := DATA_DERIVED, payload := clear_payload (payload d),
      epoch_datastart := ep\<rparr>)"
  have ne: "e1 \<noteq> e2" "e1 \<noteq> e3" "e1 \<noteq> e4" "e1 \<noteq> e5" "e2 \<noteq> e3" "e2 \<noteq> e4" "e2 \<noteq> e5"
    "e3 \<noteq> e4" "e3 \<noteq> e5" "e4 \<noteq> e5"
    "e2 \<noteq> e1" "e3 \<noteq> e1" "e4 \<noteq> e1" "e5 \<noteq> e1" "e3 \<noteq> e2" "e4 \<noteq> e2" "e5 \<noteq> e2"
    "e4 \<noteq> e3" "e5 \<noteq> e3" "e5 \<noteq> e4"
    using dist by auto
  have o3s: "obj_at s3 b = (if b \<in> {e1, e2, e3, e4, e5} then map_option pre (obj_at s b)
      else obj_at s b)" for b
    unfolding s3_def s2_def s1_def pre_def
    by (cases "obj_at s b")
       (auto simp: set_type_def clear_def set_epoch_datastart_def obj_at_obj_update ne)
  have f3: "data_from_path s3 = data_from_path s"
    unfolding s3_def s2_def s1_def
    by (simp add: set_type_def clear_def set_epoch_datastart_def obj_update_fields)
  have alt3: "float_series_at s3 a_alt = alt" and thr3: "float_series_at s3 a_thr = thr"
    using io alt thr by (auto simp: float_series_at_def o3s)
  have e1_3: "obj_at s3 e1 = Some (pre d1)" "payload (pre d1) = EventString []"
    using o1 by (simp_all add: o3s pre_def clear_payload_kind)
  define v0 where "v0 = \<lparr>flying = False, t_takeoff = 0, t_first_takeoff = 0,
                        t_last_landing = 0, nflights = 0, flighttime = (0::real)\<rparr>"
  have vl: "foldl (flightbook_value_step thr) (v0, []) alt =
     (\<lparr> flying = (if flying_flags alt thr = [] then False else snd (last (flying_flags alt thr))),
         t_takeoff = last_event_time ''takeoff'' 0 ev,
         t_first_takeoff = first_event_time ''takeoff'' 0 ev,
         t_last_landing = last_event_time ''landing'' 0 ev,
         nflights = of_nat (count_takeoffs ev),
         flighttime = flight_time_from 0 ev \<rparr>, ev)"
    using flightbook_value_loop[of v0 alt thr "[]"] len
    by (simp add: v0_def ev_def Let_def)
  obtain v where v: "foldl (flightbook_value_step thr) (v0, []) alt = (v, ev)"
    "t_first_takeoff v = first_event_time ''takeoff'' 0 ev"
    "t_last_landing v = last_event_time ''landing'' 0 ev"
    "nflights v = of_nat (count_takeoffs ev)" "flighttime v = flight_time_from 0 ev"
    using vl by simp
  define s4 where "s4 = obj_update e1 (\<lambda>d. d\<lparr>payload := EventString ev\<rparr>) s3"
  have loop: "foldl (flightbook_step a_alt a_thr e1) (v0, s3) [0 ..< series_size s3 a_alt] = (v, s4)"
    using flightbook_heap_loop[OF e1_3, where n="length alt" and a_alt=a_alt and ?v0.0=v0
        and a_thr=a_thr] v(1)
    by (simp add: series_size_def alt3 thr3 s4_def)
  have s': "s' = param_add_double e5 (t_last_landing v)
      (param_add_double e4 (t_first_takeoff v)
        (param_add_double e3 (flighttime v) (param_add_uint e2 (nflights v) s4)))"
    unfolding s'_def flightbook_body_def
    using loop[unfolded v0_def s3_def s2_def s1_def]
    by (simp add: Let_def)
  have os': "obj_at s' b =
     (if b = e1 then Some (pre d1\<lparr>payload := EventString ev\<rparr>)
      else if b = e2 then Some (pre d2\<lparr>payload := add_param_uint (nflights v) (payload (pre d2))\<rparr>)
      else if b = e3 then Some (pre d3\<lparr>payload := add_param_double (flighttime v) (payload (pre d3))\<rparr>)
      else if b = e4 then Some (pre d4\<lparr>payload := add_param_double (t_first_takeoff v) (payload (pre d4))\<rparr>)
      else if b = e5 then Some (pre d5\<lparr>payload := add_param_double (t_last_landing v) (payload (pre d5))\<rparr>)
      else obj_at s b)" for b
    unfolding s' s4_def
    using o1 o2 o3 o4 o5
    by (simp add: param_add_double_def param_add_uint_def obj_at_obj_update o3s ne)
  have pp: "payload (pre d2) = ParamUInt []" "payload (pre d3) = ParamDouble []"
    "payload (pre d4) = ParamDouble []" "payload (pre d5) = ParamDouble []"
    using o2 o3 o4 o5 by (simp_all add: pre_def clear_payload_kind)
  show "map_option payload (obj_at s' e1) = Some (EventString ev)"
    by (simp add: os')
  show "map_option payload (obj_at s' e2) = Some (ParamUInt [of_nat (count_takeoffs ev)])"
    by (simp add: os' ne pp v)
  show "map_option payload (obj_at s' e3) = Some (ParamDouble [flight_time_from 0 ev])"
    by (simp add: os' ne pp v)
  show "map_option payload (obj_at s' e4) = Some (ParamDouble [first_event_time ''takeoff'' 0 ev])"
    by (simp add: os' ne pp v)
  show "map_option payload (obj_at s' e5) = Some (ParamDouble [last_event_time ''landing'' 0 ev])"
    by (simp add: os' ne pp v)
  show "data_from_path s' = data_from_path s"
    unfolding s' s4_def
    by (simp add: param_add_double_def param_add_uint_def obj_update_fields f3)
  show "\<And>b. b \<notin> {e1, e2, e3, e4, e5} \<Longrightarrow> obj_at s' b = obj_at s b"
    by (simp add: os')
  show "\<And>b. (obj_at s' b = None) = (obj_at s b = None)"
    using o1 o2 o3 o4 o5 by (simp add: os')
qed

lemma flightbook_effect:
  fixes s :: mavsystem
  assumes wf: "wf_flat s"
    and alt: "unit_of s ''airstate/alt GND'' = Some dalt" "payload dalt = TimeseriesFloat alt"
    and thr: "unit_of s ''airstate/throttle'' = Some dthr" "payload dthr = TimeseriesFloat thr"
    and sync: "epoch_datastart dalt = epoch_datastart dthr"
    and len: "length alt < 2 ^ 32"
    and u1: "unit_ok s (EventString []) ''flightbook/takeoff_landing''"
    and u2: "unit_ok s (ParamUInt []) ''flightbook/number flights''"
    and u3: "unit_ok s (ParamDouble []) ''flightbook/total flight time''"
    and u4: "unit_ok s (ParamDouble []) ''flightbook/first takeoff''"
    and u5: "unit_ok s (ParamDouble []) ''flightbook/last landing''"
  defines "s' \<equiv> postprocess_flightbook s"
  defines "ev \<equiv> edge_events False (flying_flags alt thr)"
  shows "payload_of s' ''flightbook/takeoff_landing'' = Some (EventString ev)"
    and "payload_of s' ''flightbook/number flights'' = Some (ParamUInt [of_nat (count_takeoffs ev)])"
    and "payload_of s' ''flightbook/total flight time'' = Some (ParamDouble [flight_time_from 0 ev])"
    and "payload_of s' ''flightbook/first takeoff'' = Some (ParamDouble [first_event_time ''takeoff'' 0 ev])"
    and "payload_of s' ''flightbook/last landing'' = Some (ParamDouble [last_event_time ''landing'' 0 ev])"
proof -
  from unit_of_points_to[OF alt(1)] obtain a_alt where
    a_alt: "points_to s ''airstate/alt GND'' a_alt" "obj_at s a_alt = Some dalt" by blast
  from unit_of_points_to[OF thr(1)] obtain a_thr where
    a_thr: "points_to s ''airstate/throttle'' a_thr" "obj_at s a_thr = Some dthr" by blast
  have r1: "get_data_typed (TimeseriesFloat []) ''airstate/alt GND'' s = Some a_alt"
    using a_alt alt(2) by (simp add: get_data_typed_points_to)
  have r2: "get_data_typed (TimeseriesFloat []) ''airstate/throttle'' s = Some a_thr"
    using a_thr thr(2) by (simp add: get_data_typed_points_to)
  have ep: "get_epoch_datastart s a_alt = get_epoch_datastart s a_thr"
    using a_alt a_thr sync by (simp add: get_epoch_datastart_def)
  obtain e1 s1 d1 where m1:
    "item_made s (EventString []) ''flightbook/takeoff_landing'' [] e1 s1 d1"
    using item_made_ex[OF wf u1] by blast
  note 1 = item_madeD[OF m1]
  obtain e2 s2 d2 where m2:
    "item_made s1 (ParamUInt []) ''flightbook/number flights'' [] e2 s2 d2"
    using item_made_ex[OF 1(3) 1(6)[OF _ u2]] by blast
  note 2 = item_madeD[OF m2]
  have u3': "unit_ok s2 (ParamDouble []) ''flightbook/total flight time''"
    using 1(6)[OF _ u3] 2(6) by simp
  obtain e3 s3 d3 where m3:
    "item_made s2 (ParamDouble []) ''flightbook/total flight time'' ''s'' e3 s3 d3"
    using item_made_ex[OF 2(3) u3'] by blast
  note 3 = item_madeD[OF m3]
  have u4': "unit_ok s3 (ParamDouble []) ''flightbook/first takeoff''"
    using 1(6)[OF _ u4] 2(6) 3(6) by simp
  obtain e4 s4 d4 where m4:
    "item_made s3 (ParamDouble []) ''flightbook/first takeoff'' ''[time epoch]'' e4 s4 d4"
    using item_made_ex[OF 3(3) u4'] by blast
  note 4 = item_madeD[OF m4]
  have u5': "unit_ok s4 (ParamDouble []) ''flightbook/last landing''"
    using 1(6)[OF _ u5] 2(6) 3(6) 4(6) by simp
  obtain e5 s5 d5 where m5:
    "item_made s4 (ParamDouble []) ''flightbook/last landing'' ''[time epoch]'' e5 s5 d5"
    using item_made_ex[OF 4(3) u5'] by blast
  note 5 = item_madeD[OF m5]
  have p: "points_to s5 ''flightbook/takeoff_landing'' e1"
    "points_to s5 ''flightbook/number flights'' e2"
    "points_to s5 ''flightbook/total flight time'' e3"
    "points_to s5 ''flightbook/first takeoff'' e4"
    "points_to s5 ''flightbook/last landing'' e5"
    "points_to s5 ''airstate/alt GND'' a_alt"
    "points_to s5 ''airstate/throttle'' a_thr"
    using 1(2) 2(2) 3(2) 4(2) 5(2) a_alt(1) a_thr(1) 1(5) 2(5) 3(5) 4(5) 5(5) by simp_all
  note neq = points_to_neq[OF 5(3)]
  have "e1 \<noteq> e2" "e1 \<noteq> e3" "e1 \<noteq> e4" "e1 \<noteq> e5"
    by (rule neq[OF p(1) p(2)], simp, rule neq[OF p(1) p(3)], simp,
        rule neq[OF p(1) p(4)], simp, rule neq[OF p(1) p(5)], simp)
  moreover have "e2 \<noteq> e3" "e2 \<noteq> e4" "e2 \<noteq> e5" "e3 \<noteq> e4" "e3 \<noteq> e5" "e4 \<noteq> e5"
    by (rule neq[OF p(2) p(3)], simp, rule neq[OF p(2) p(4)], simp,
        rule neq[OF p(2) p(5)], simp, rule neq[OF p(3) p(4)], simp,
        rule neq[OF p(3) p(5)], simp, rule neq[OF p(4) p(5)], simp)
  ultimately have dist: "distinct [e1, e2, e3, e4, e5]" by simp
  have "a_alt \<noteq> e1" "a_alt \<noteq> e2" "a_alt \<noteq> e3" "a_alt \<noteq> e4" "a_alt \<noteq> e5"
    by (rule neq[OF p(6) p(1)], simp, rule neq[OF p(6) p(2)], simp,
        rule neq[OF p(6) p(3)], simp, rule neq[OF p(6) p(4)], simp,
        rule neq[OF p(6) p(5)], simp)
  moreover have "a_thr \<noteq> e1" "a_thr \<noteq> e2" "a_thr \<noteq> e3" "a_thr \<noteq> e4" "a_thr \<noteq> e5"
    by (rule neq[OF p(7) p(1)], simp, rule neq[OF p(7) p(2)], simp,
        rule neq[OF p(7) p(3)], simp, rule neq[OF p(7) p(4)], simp,
        rule neq[OF p(7) p(5)], simp)
  ultimately have io: "a_alt \<notin> {e1, e2, e3, e4, e5}" "a_thr \<notin> {e1, e2, e3, e4, e5}"
    by simp_all
  have o1: "obj_at s5 e1 = Some d1" using 1(7) 2(9) 3(9) 4(9) 5(9) by simp
  have o2: "obj_at s5 e2 = Some d2" using 2(7) 3(9) 4(9) 5(9) by simp
  have o3: "obj_at s5 e3 = Some d3" using 3(7) 4(9) 5(9) by simp
  have o4: "obj_at s5 e4 = Some d4" using 4(7) 5(9) by simp
  have oa: "obj_at s5 a_alt = Some dalt" "obj_at s5 a_thr = Some dthr"
    using a_alt(2) a_thr(2) 1(9) 2(9) 3(9) 4(9) 5(9) by simp_all
  note fs = float_series_at_Some[OF oa(1) alt(2)] float_series_at_Some[OF oa(2) thr(2)]
  define E where "E = get_epoch_datastart s a_alt"
  have run: "s' = flightbook_body a_alt a_thr E e1 e2 e3 e4 e5 s5"
    unfolding s'_def postprocess_flightbook_def REQUIRE_DATA_def
    by (simp add: r1 r2 ep Let_def 1(1) 2(1) 3(1) 4(1) 5(1) E_def)
  note b = flightbook_body_objs[OF dist io o1 1(8) o2 2(8) o3 3(8) o4 4(8) 5(7,8) fs len,
      where ep=E, folded run ev_def]
  have pt: "points_to s' P a = points_to s5 P a" for P a
    by (rule points_to_flat_eq[OF b(6) b(8)])
  show "payload_of s' ''flightbook/takeoff_landing'' = Some (EventString ev)"
    using payload_of_points_to[of s', OF p(1)[folded pt]] b(1) by simp
  show "payload_of s' ''flightbook/number flights'' = Some (ParamUInt [of_nat (count_takeoffs ev)])"
    using payload_of_points_to[of s', OF p(2)[folded pt]] b(2) by simp
  show "payload_of s' ''flightbook/total flight time'' = Some (ParamDouble [flight_time_from 0 ev])"
    using payload_of_points_to[of s', OF p(3)[folded pt]] b(3) by simp
  show "payload_of s' ''flightbook/first takeoff'' = Some (ParamDouble [first_event_time ''takeoff'' 0 ev])"
    using payload_of_points_to[of s', OF p(4)[folded pt]] b(4) by simp
  show "payload_of s' ''flightbook/last landing'' = Some (ParamDouble [last_event_time ''landing'' 0 ev])"
    using payload_of_points_to[of s', OF p(5)[folded pt]] b(5) by simp
qed

text \<open>
  Claim C6. Let the system hold the float series \<^verbatim>\<open>airstate/alt GND\<close> and
  \<^verbatim>\<open>airstate/throttle\<close> with equal epoch baselines (fewer than \<open>2 ^ 32\<close> altitude samples,
  the five output paths free or of the right type). The flight-book pass walks the
  altitude samples in their order, interpolates the throttle at each altitude time,
  takes a sample as flying exactly when altitude is above 1 and throttle above 20, and
  then holds: a takeoff event at each edge from not flying to flying and a landing event
  at each edge back, the number of takeoffs as flight count, the sum of landing minus
  takeoff time as flight time, and the first takeoff and last landing as parameters.
\<close>

theorem flightbook_edge_events:
  fixes s :: mavsystem
  assumes "wf_flat s"
    and "unit_of s ''airstate/alt GND'' = Some dalt" and "payload dalt = TimeseriesFloat alt"
    and "unit_of s ''airstate/throttle'' = Some dthr" and "payload dthr = TimeseriesFloat thr"
    and "epoch_datastart dalt = epoch_datastart dthr"
    and "length alt < 2 ^ 32"
    and "unit_ok s (EventString []) ''flightbook/takeoff_landing''"
    and "unit_ok s (ParamUInt []) ''flightbook/number flights''"
    and "unit_ok s (ParamDouble []) ''flightbook/total flight time''"
    and "unit_ok s (ParamDouble []) ''flightbook/first takeoff''"
    and "unit_ok s (ParamDouble []) ''flightbook/last landing''"
  defines "s' \<equiv> postprocess_flightbook s"
  defines "ev \<equiv> edge_events False (flying_flags alt thr)"
  shows "payload_of s' ''flightbook/takeoff_landing'' = Some (EventString ev)
       \<and> payload_of s' ''flightbook/number flights'' = Some (ParamUInt [of_nat (count_takeoffs ev)])
       \<and> payload_of s' ''flightbook/total flight time'' = Some (ParamDouble [flight_time_from 0 ev])
       \<and> payload_of s' ''flightbook/first takeoff''
            = Some (ParamDouble [first_event_time ''takeoff'' 0 ev])
       \<and> payload_of s' ''flightbook/last landing''
            = Some (ParamDouble [last_event_time ''landing'' 0 ev])"
  unfolding s'_def ev_def
  by (intro conjI flightbook_effect[OF assms(1-12)])

text \<open>The scenario of the specification: exactly one flight, takeoff at 2, landing at 4,
  flight time 2 seconds.\<close>

theorem flightbook_edge_events_witness:
  "payload_of (postprocess_flightbook flightbook_example) ''flightbook/takeoff_landing''
     = Some (EventString [(2, ''takeoff''), (4, ''landing'')])
   \<and> payload_of (postprocess_flightbook flightbook_example) ''flightbook/number flights''
     = Some (ParamUInt [1])
   \<and> payload_of (postprocess_flightbook flightbook_example) ''flightbook/total flight time''
     = Some (ParamDouble [2])
   \<and> payload_of (postprocess_flightbook flightbook_example) ''flightbook/first takeoff''
     = Some (ParamDouble [2])
   \<and> payload_of (postprocess_flightbook flightbook_example) ''flightbook/last landing''
     = Some (ParamDouble [4])"
proof -
  let ?alt = "[(0, 0), (1, 0), (2, 5), (3, 5), (4, 0), (5, 0)] :: (real \<times> real) list"
  let ?thr = "[(0, 0), (1, 0), (2, 50), (3, 50), (4, 0), (5, 0)] :: (real \<times> real) list"
  let ?dalt = "\<lparr> name = ''alt GND'', units = ''m'', dtype = DATA_RAW, epoch_datastart = 0,
                    parent = Some [''airstate''], payload = TimeseriesFloat ?alt \<rparr>"
  let ?dthr = "\<lparr> name = ''throttle'', units = ''%'', dtype = DATA_RAW, epoch_datastart = 0,
                    parent = Some [''airstate''], payload = TimeseriesFloat ?thr \<rparr>"
  have wf: "wf_flat flightbook_example"
    by (simp add: wf_flat_def flightbook_example_def)
  have a: "unit_of flightbook_example ''airstate/alt GND'' = Some ?dalt"
    and t: "unit_of flightbook_example ''airstate/throttle'' = Some ?dthr"
    by (simp_all add: unit_of_def flightbook_example_def obj_at_def)
  have u: "unit_ok flightbook_example k ''flightbook/takeoff_landing''"
    "unit_ok flightbook_example k ''flightbook/number flights''"
    "unit_ok flightbook_example k ''flightbook/total flight time''"
    "unit_ok flightbook_example k ''flightbook/first takeoff''"
    "unit_ok flightbook_example k ''flightbook/last landing''" for k
    by (simp_all add: unit_ok_def flightbook_example_def)
  have ff: "flying_flags ?alt ?thr
      = [(0, False), (1, False), (2, True), (3, True), (4, False), (5, False)]"
    by (simp add: flying_flags_def)
  have ev: "edge_events False (flying_flags ?alt ?thr) = [(2, ''takeoff''), (4, ''landing'')]"
    by (simp add: ff)
  from flightbook_edge_events[OF wf a _ t _ _ _ u(1) u(2) u(3) u(4) u(5), of ?alt ?thr]
  show ?thesis
    by (simp add: ev count_takeoffs_def)
qed

subsection \<open>Power statistics\<close>















subsection \<open>Merging two systems\<close>

lemma merge_loop_add_all:
  "foldl (merge_in_step other) (added, s) entries =
     (added \<or> True \<in> set (fst (add_all other entries s)), snd (add_all other entries s))"
proof (induction entries arbitrary: added s)
  case Nil
  then show ?case by simp
next
  case (Cons e entries)
  obtain path a where e: "e = (path, a)" by (cases e)
  obtain ok s1 where a: "add_data (obj_at other a) s = (ok, s1)"
    by (cases "add_data (obj_at other a) s")
  obtain oks s2 where r: "add_all other entries s1 = (oks, s2)"
    by (cases "add_all other entries s1")
  show ?case
    using Cons.IH[of "added \<or> ok" s1] e a r
    by (cases ok) (auto simp: merge_in_step_def)
qed

lemma length_add_all: "length (fst (add_all other entries s)) = length entries"
proof (induction entries arbitrary: s)
  case Nil
  then show ?case by simp
next
  case (Cons e entries)
  obtain path a where e: "e = (path, a)" by (cases e)
  obtain ok s1 where a: "add_data (obj_at other a) s = (ok, s1)"
    by (cases "add_data (obj_at other a) s")
  obtain oks s2 where r: "add_all other entries s1 = (oks, s2)"
    by (cases "add_all other entries s1")
  show ?case using Cons.IH[of s1] e a r by simp
qed

lemma add_data_mismatch:
  "add_data (obj_at mismatch_sys 0) example_sys = (False, example_sys)"
  by (simp add: add_data_def mismatch_sys_def example_sys_def example_unit_def MavSystem_def
      defaults_def obj_at_def get_fullname_def get_data_def is_present_def
      data_merge_in_def obj_update_def)

text \<open>
  Claim C3, as stated, fails when no unit merges: the only unit of \<open>mismatch_sys\<close> is an
  event log at the path where \<open>example_sys\<close> holds a float series, so \<^verbatim>\<open>_add_data\<close> fails
  for it and the receiving system is unchanged, and \<^verbatim>\<open>merge_in\<close> still returns \<^verbatim>\<open>true\<close>.
\<close>

theorem merge_in_reports_success_counterexample:
  "fst (add_data (obj_at mismatch_sys 0) example_sys) = False
   \<and> data_from_path mismatch_sys = [(''power/battery_voltage'', 0)]
   \<and> merge_in (\<lambda>d. False) 0 mismatch_sys example_sys = (True, example_sys)"
proof -
  have "data_from_path mismatch_sys = [(''power/battery_voltage'', 0)]"
    by (simp add: mismatch_sys_def)
  then show ?thesis
    by (simp add: add_data_mismatch merge_in_def merge_in_step_def)
qed

text \<open>
  Claim C3, amended. \<^verbatim>\<open>merge_in\<close> attempts \<^verbatim>\<open>_add_data\<close> for every entry of the flat map of
  the other system, in the order of the map and whatever the earlier attempts returned,
  and it always returns \<^verbatim>\<open>true\<close>. The pipeline and the determination of the absolute time
  run after the attempts exactly when one of them succeeded; otherwise the receiving
  system is left as the attempts left it.
\<close>

theorem merge_in_processes_all:
  "merge_in has_bad_timestamps uninit other s =
     (True,
      if True \<in> set (fst (add_all other (data_from_path other) s))
      then determine_absolute_time
             (postprocess has_bad_timestamps uninit
                (snd (add_all other (data_from_path other) s)))
      else snd (add_all other (data_from_path other) s))
   \<and> length (fst (add_all other (data_from_path other) s)) = length (data_from_path other)"
  by (simp add: merge_in_def merge_loop_add_all length_add_all)

theorem merge_in_processes_all_witness:
  "merge_in (\<lambda>d. False) 0 mismatch_sys example_sys = (True, example_sys)
   \<and> fst (add_all mismatch_sys (data_from_path mismatch_sys) example_sys) = [False]"
proof -
  have d: "data_from_path mismatch_sys = [(''power/battery_voltage'', 0)]"
    by (simp add: mismatch_sys_def)
  have a: "add_all mismatch_sys (data_from_path mismatch_sys) example_sys
             = ([False], example_sys)"
    by (simp add: d add_data_mismatch)
  show ?thesis
    using merge_in_processes_all[of "\<lambda>d. False" 0 mismatch_sys example_sys]
    by (simp add: a)
qed

subsection \<open>Running the pipeline twice\<close>

lemma bad_timing_none: "postprocess_bad_timing (\<lambda>d. False) s = s"
proof -
  have "foldl (bad_timing_step (\<lambda>d. False)) s es = s" for es
    by (induction es) (auto simp: bad_timing_step_def split: option.splits)
  then show ?thesis by (simp add: postprocess_bad_timing_def)
qed

lemma flightbook_absent:
  "map_find ''airstate/alt GND'' (data_from_path s) = None \<Longrightarrow> postprocess_flightbook s = s"
  by (simp add: postprocess_flightbook_def REQUIRE_DATA_def get_data_typed_def get_data_def)

lemma powerstats_absent:
  "map_find ''power/battery_voltage'' (data_from_path s) = None \<Longrightarrow> postprocess_powerstats s = s"
  by (simp add: postprocess_powerstats_def REQUIRE_DATA_def get_data_typed_def get_data_def)

lemma glideperf_vel_absent:
  assumes "get_data_pattern (TimeseriesFloat []) (rx_b @ ''[rR]oll'' @ rx_b) s = None"
    and "get_data_pattern (TimeseriesFloat []) ''NKF1/VE'' s = None"
  shows "postprocess_glideperf_vel u s = s"
  using assms
  by (simp add: postprocess_glideperf_vel_def glidevel_groundspeed_def Let_def
      split: option.splits prod.splits)

lemma sqrt_25: "sqrt 25 = 5"
proof -
  have "sqrt ((5::real)\<^sup>2) = 5" by simp
  then show ?thesis by simp
qed

lemma pat1: "get_data_pattern (TimeseriesFloat []) (rx_b @ ''PN'' @ rx_b) glide_sys = Some 2"
  by (simp add: get_data_pattern_def glide_sys_def regex_matches_def rx_b_def is_word_char_def
       obj_at_def position_unit_def)

lemmas rx_eval = get_data_pattern_def regex_matches_def rx_b_def is_word_char_def obj_at_def
  position_unit_def

lemma pos_first: "postprocess_glideperf_pos u glide_sys = glide_sys_with [(1, 5 + u)]"
  by (simp add: postprocess_glideperf_pos_def rx_eval glide_sys_def glide_sys_with_def
      DATA_ITEM_OR_RETURN_def get_and_possibly_create_data_def get_data_def get_data_typed_def
      new_data_def data_register_hierarchy_def string_trim_def is_blank_def
      set_type_def obj_update_def series_size_def float_series_at_def
      glideperf_pos_step_def series_get_data_def get_data_at_time_def add_elem_def
      MavSystem_def defaults_def sqrt_25 Let_def)

lemma pos_again:
  "postprocess_glideperf_pos u (glide_sys_with xs) = glide_sys_with (xs @ [(1, 5 + u)])"
  by (simp add: postprocess_glideperf_pos_def rx_eval glide_sys_with_def
      DATA_ITEM_OR_RETURN_def get_and_possibly_create_data_def get_data_def get_data_typed_def
      set_type_def obj_update_def series_size_def float_series_at_def
      glideperf_pos_step_def series_get_data_def get_data_at_time_def add_elem_def
      MavSystem_def defaults_def sqrt_25 Let_def)

lemma vel_glide_sys: "postprocess_glideperf_vel u (glide_sys_with xs) = glide_sys_with xs"
  by (rule glideperf_vel_absent) (simp_all add: rx_eval glide_sys_with_def)

lemma postprocess_glide_sys:
  "postprocess (\<lambda>d. False) u glide_sys = glide_sys_with [(1, 5 + u)]"
proof -
  have "postprocess_flightbook glide_sys = glide_sys"
    by (rule flightbook_absent) (simp add: glide_sys_def)
  moreover have "postprocess_powerstats glide_sys = glide_sys"
    by (rule powerstats_absent) (simp add: glide_sys_def)
  ultimately show ?thesis
    by (simp add: postprocess_def bad_timing_none pos_first vel_glide_sys)
qed

lemma postprocess_glide_sys_with:
  "postprocess (\<lambda>d. False) u (glide_sys_with xs) = glide_sys_with (xs @ [(1, 5 + u)])"
proof -
  have "postprocess_flightbook (glide_sys_with xs) = glide_sys_with xs"
    by (rule flightbook_absent) (simp add: glide_sys_with_def)
  moreover have "postprocess_powerstats (glide_sys_with xs) = glide_sys_with xs"
    by (rule powerstats_absent) (simp add: glide_sys_with_def)
  ultimately show ?thesis
    by (simp add: postprocess_def bad_timing_none pos_again vel_glide_sys)
qed

lemma series_glide_sys_with:
  "series (glide_sys_with xs) ''glideperf/cum. horz. dist.'' = xs"
  by (simp add: series_def glide_sys_with_def payload_at_def obj_at_def)

text \<open>
  Claim C5 fails on the code for the system \<open>glide_sys\<close>: \<^verbatim>\<open>_postprocess_glideperf_pos\<close> does
  not clear \<^verbatim>\<open>glideperf/cum. horz. dist.\<close> before it appends to it. After one run of the
  pipeline the series holds one sample, after a second run without new input it holds that
  sample twice, whatever the indeterminate first value \<open>u\<close> of \<^verbatim>\<open>hdist_pre\<close> is.
\<close>

theorem postprocess_twice_appends:
  "series (postprocess (\<lambda>d. False) u glide_sys) ''glideperf/cum. horz. dist.'' = [(1, 5 + u)]
   \<and> series (postprocess (\<lambda>d. False) u (postprocess (\<lambda>d. False) u glide_sys))
         ''glideperf/cum. horz. dist.'' = [(1, 5 + u), (1, 5 + u)]"
  by (simp add: postprocess_glide_sys postprocess_glide_sys_with series_glide_sys_with)

end
